theory Spec2Isabelle
  imports Complex_Main
begin

section \<open>LabFace attendance core: data model\<close>

text \<open>
  The tables of the initial schema (sessions, attendance, presence_events, classes,
  class_students) are lists of rows in insertion order. Timestamps are milliseconds since
  the epoch, as \<open>Date.getTime()\<close> gives them. The column \<open>session_date\<close> is the UTC
  calendar day of the clock reading. Only the columns that the route handlers read or
  write are kept: the descriptive columns of \<open>classes\<close> and the surrogate key of
  \<open>attendance\<close> are never read by them.

  The store is MySQL (the client is \<open>mysql2\<close>, the schema uses \<open>AUTO_INCREMENT\<close>). A
  column that an insert does not name is null. The table constraint
  \<open>UNIQUE(session_id, student_id)\<close> of \<open>attendance\<close> is enforced; the column-level
  \<open>REFERENCES\<close> clauses are parsed and not enforced by MySQL, so no insert fails for a
  missing parent row. Strings are compared as they are written. Each request reads the
  clock once. A statement on the store is atomic; a handler with one write is one step, and
  the start handler, which decides by a select and then inserts, is two.
\<close>

type_synonym timestamp = int

record user =
  u_id :: string
  u_type :: string

record class_row =
  c_class_id :: nat
  c_professor_id :: string

record session =
  s_session_id :: nat
  s_class_id :: nat
  s_session_date :: int
  s_start_ts :: "timestamp option"
  s_end_ts :: "timestamp option"
  s_status :: string

record attendance_row =
  a_session_id :: nat
  a_student_id :: string
  a_status :: string
  a_checkin_ts :: "timestamp option"
  a_checkout_ts :: "timestamp option"
  a_presence_minutes :: "int option"
  a_selfie_url :: "string option"

text \<open>
  The JSON column \<open>details\<close> of an event: an image locator and the matcher's score and
  confidence. The numbers are only stored, never computed with.
\<close>

record details =
  image_url :: "string option"
  score :: "int option"
  confidence :: "int option"

record presence_event =
  e_event_id :: nat
  e_session_id :: nat
  e_student_id :: string
  e_event_type :: string
  e_event_ts :: timestamp
  e_source :: string
  e_details :: "details option"

text \<open>
  The process environment: the variables that the handlers read. The late threshold is
  parsed, so it is kept as JavaScript has it, a sequence of UTF-16 code units; the endpoint
  is only copied into locators.
\<close>

type_synonym js_string = "nat list"

record env =
  LATE_THRESHOLD_MINUTES :: "js_string option"
  MINIO_ENDPOINT :: "string option"

text \<open>The code units of a string literal of the source.\<close>

definition code_units :: "string \<Rightarrow> js_string" where
  "code_units s = map of_char s"

section \<open>The attendance resolver\<close>

text \<open>
  JavaScript's \<open>parseInt\<close> with no radix: leading white space and line terminators are
  skipped (tab, line feed, vertical tab, form feed, carriage return, space, no-break space,
  U+1680, U+2000 to U+200A, U+2028, U+2029, U+202F, U+205F, U+3000 and U+FEFF), a sign is
  read, a prefix \<open>0x\<close> selects base 16, and the longest prefix of digits is the value.
  No digit at all gives NaN, which is \<open>None\<close> here.
\<close>

definition is_space :: "nat \<Rightarrow> bool" where
  "is_space c =
     (c \<in> {0x09, 0x0A, 0x0B, 0x0C, 0x0D, 0x20, 0xA0, 0x1680, 0x2028, 0x2029, 0x202F, 0x205F,
            0x3000, 0xFEFF}
      \<or> (0x2000 \<le> c \<and> c \<le> 0x200A))"

definition digit_val :: "nat \<Rightarrow> nat option" where
  "digit_val n =
     (if 48 \<le> n \<and> n \<le> 57 then Some (n - 48)
      else if 97 \<le> n \<and> n \<le> 102 then Some (n - 87)
      else if 65 \<le> n \<and> n \<le> 70 then Some (n - 55)
      else None)"

fun parse_digits :: "nat \<Rightarrow> js_string \<Rightarrow> nat option \<Rightarrow> nat option" where
  "parse_digits radix [] acc = acc"
| "parse_digits radix (c # cs) acc =
     (case digit_val c of
        None \<Rightarrow> acc
      | Some d \<Rightarrow>
          if d < radix
          then parse_digits radix cs (Some (radix * (case acc of None \<Rightarrow> 0 | Some a \<Rightarrow> a) + d))
          else acc)"

text \<open>The sign: \<open>-\<close> is 45 and \<open>+\<close> is 43. The prefix: \<open>0\<close> is 48, \<open>x\<close> is 120, \<open>X\<close> is 88.\<close>

definition strip_sign :: "js_string \<Rightarrow> bool \<times> js_string" where
  "strip_sign s =
     (case s of
        c # cs \<Rightarrow> if c = 45 then (True, cs) else if c = 43 then (False, cs) else (False, s)
      | [] \<Rightarrow> (False, s))"

definition strip_radix :: "js_string \<Rightarrow> nat \<times> js_string" where
  "strip_radix s =
     (case s of
        a # b # cs \<Rightarrow> if a = 48 \<and> (b = 120 \<or> b = 88) then (16, cs) else (10, s)
      | _ \<Rightarrow> (10, s))"

definition parseInt :: "js_string \<Rightarrow> int option" where
  "parseInt s =
     (let (neg, s1) = strip_sign (dropWhile is_space s);
          (radix, s2) = strip_radix s1
      in case parse_digits radix s2 None of
           None \<Rightarrow> None
         | Some n \<Rightarrow> Some (if neg then - int n else int n))"

text \<open>\<open>v || d\<close> on an optional string: an absent or empty one gives the default.\<close>

definition or_default :: "'a list option \<Rightarrow> 'a list \<Rightarrow> 'a list" where
  "or_default v d = (case v of None \<Rightarrow> d | Some s \<Rightarrow> if s = [] then d else s)"

text \<open>\<open>new Date(d).getTime()\<close> for a column value: a null column is the epoch.\<close>

definition getTime :: "timestamp option \<Rightarrow> int" where
  "getTime d = (case d of None \<Rightarrow> 0 | Some t \<Rightarrow> t)"

definition lateThresholdMinutes :: "env \<Rightarrow> int option" where
  "lateThresholdMinutes e = parseInt (or_default (LATE_THRESHOLD_MINUTES e) (code_units ''30''))"

text \<open>
  \<open>isStudentLate\<close> reads the clock and the environment; both are arguments here. The
  division is exact (the source divides two doubles). A comparison with NaN is false.
\<close>

definition isStudentLate :: "env \<Rightarrow> timestamp \<Rightarrow> timestamp option \<Rightarrow> bool" where
  "isStudentLate e now sessionStart =
     (let diffMinutes = (of_int (now - getTime sessionStart) :: rat) / (1000 * 60)
      in case lateThresholdMinutes e of
           None \<Rightarrow> False
         | Some t \<Rightarrow> diffMinutes > of_int t)"

text \<open>\<open>const status = isLate ? 'late' : 'present'\<close>, as both ingestion routes compute it.\<close>

definition resolve_status :: "env \<Rightarrow> timestamp \<Rightarrow> timestamp option \<Rightarrow> string" where
  "resolve_status e now sessionStart = (if isStudentLate e now sessionStart then ''late'' else ''present'')"

section \<open>The store and the realtime channel\<close>

text \<open>
  A message on the channel goes to the room \<^verbatim>\<open>attendance:\<close> followed by the session id;
  the room is named by the session id here.
\<close>

datatype message =
  SessionStatusMsg nat string
| PresenceEventMsg nat string string timestamp string "details option"
| CheckinEventMsg string timestamp "int option" string

record state =
  classes :: "class_row list"
  class_students :: "(nat \<times> string) list"
  sessions :: "session list"
  next_session_id :: nat
  attendance :: "attendance_row list"
  presence_events :: "presence_event list"
  next_event_id :: nat
  objects :: "(string \<times> string) list"
  emitted :: "(nat \<times> message) list"

datatype db_error = ER_DUP_ENTRY | StorageError

text \<open>
  What a handler answers: \<open>res.status(n).json({error})\<close>, the failure bodies of the
  check-in, the success bodies, and an exception handed to \<open>next(error)\<close>.
\<close>

datatype response =
  Error nat string
| Failure nat string
| SessionStarted nat
| SessionStopped
| EventRecorded nat
| CheckedIn string string
| AbsentComputed nat
| Unhandled db_error

definition broadcastSessionStatus :: "nat \<Rightarrow> string \<Rightarrow> state \<Rightarrow> state" where
  "broadcastSessionStatus sessionId status st =
     st\<lparr>emitted := emitted st @ [(sessionId, SessionStatusMsg sessionId status)]\<rparr>"

definition broadcastPresenceEvent :: "nat \<Rightarrow> message \<Rightarrow> state \<Rightarrow> state" where
  "broadcastPresenceEvent sessionId event st = st\<lparr>emitted := emitted st @ [(sessionId, event)]\<rparr>"

text \<open>The unique key of the attendance table: \<open>UNIQUE(session_id, student_id)\<close>.\<close>

definition att_key :: "attendance_row \<Rightarrow> nat \<times> string" where
  "att_key r = (a_session_id r, a_student_id r)"

definition has_row :: "attendance_row list \<Rightarrow> nat \<times> string \<Rightarrow> bool" where
  "has_row tbl k = (\<exists>r \<in> set tbl. att_key r = k)"

text \<open>
  \<open>insert({session_id, student_id, status, checkin_ts, selfie_url}).onConflict([...]).merge()\<close>
  on MySQL is INSERT ... ON DUPLICATE KEY UPDATE of every inserted column: a row with the
  same key takes the new status, check-in time and selfie, and keeps its other columns; with
  no such row the new one is appended, its other columns null.
\<close>

definition upsert_attendance ::
  "nat \<Rightarrow> string \<Rightarrow> string \<Rightarrow> timestamp \<Rightarrow> string option \<Rightarrow> attendance_row list \<Rightarrow> attendance_row list" where
  "upsert_attendance sid student status now selfie tbl =
     (if has_row tbl (sid, student)
      then map (\<lambda>r. if att_key r = (sid, student)
                     then r\<lparr>a_status := status, a_checkin_ts := Some now, a_selfie_url := selfie\<rparr>
                     else r) tbl
      else tbl @ [\<lparr>a_session_id = sid, a_student_id = student, a_status = status,
                   a_checkin_ts = Some now, a_checkout_ts = None, a_presence_minutes = None,
                   a_selfie_url = selfie\<rparr>])"

text \<open>\<open>where({session_id, student_id}).update({checkout_ts: new Date()})\<close>.\<close>

definition update_checkout :: "nat \<Rightarrow> string \<Rightarrow> timestamp \<Rightarrow> attendance_row list \<Rightarrow> attendance_row list" where
  "update_checkout sid student now tbl =
     map (\<lambda>r. if att_key r = (sid, student) then r\<lparr>a_checkout_ts := Some now\<rparr> else r) tbl"

text \<open>
  A plain multi-row \<open>insert\<close>: a row whose key is already in the table (or earlier in the
  same statement) raises the duplicate-entry error, and the statement inserts nothing.
\<close>

fun insert_rows :: "attendance_row list \<Rightarrow> attendance_row list \<Rightarrow> db_error + attendance_row list" where
  "insert_rows [] tbl = Inr tbl"
| "insert_rows (r # rs) tbl =
     (if has_row tbl (att_key r) then Inl ER_DUP_ENTRY else insert_rows rs (tbl @ [r]))"

section \<open>Session lifecycle\<close>

text \<open>
  The handlers take the authenticated principal, one reading of the clock for the request,
  the request's parameters and the state, and return the answer and the new state. Route
  parameters are the numbers that \<open>parseInt\<close> read from the path.
\<close>

definition is_open :: "session \<Rightarrow> bool" where
  "is_open s = (s_status s = ''open'')"

text \<open>
  \<open>POST /:id/start\<close>, behind \<open>requireProfessor\<close>. The handler awaits the select of the
  class, the select of an open session and the insert, one after the other, with no
  transaction around them, and the table \<open>sessions\<close> has no unique key on the class. So
  the handler is two steps on the store: \<open>start_check\<close> is what the two selects decide
  (an answer, or \<open>None\<close> to go on), and \<open>start_insert\<close> is the insert with the broadcast
  and the answer. Another request can be served between the two.
\<close>

definition start_check :: "user \<Rightarrow> nat \<Rightarrow> state \<Rightarrow> response option" where
  "start_check u classId st =
     (if u_type u \<noteq> ''professor'' then Some (Error 403 ''Professor access required'')
      else case find (\<lambda>c. c_class_id c = classId \<and> c_professor_id c = u_id u) (classes st) of
        None \<Rightarrow> Some (Error 404 ''Class not found'')
      | Some existingClass \<Rightarrow>
          (case find (\<lambda>s. s_class_id s = classId \<and> is_open s) (sessions st) of
             Some activeSession \<Rightarrow> Some (Error 400 ''Session already active for this class'')
           | None \<Rightarrow> None))"

definition start_insert :: "timestamp \<Rightarrow> nat \<Rightarrow> state \<Rightarrow> response \<times> state" where
  "start_insert now classId st =
     (let sessionId = next_session_id st;
          st1 = st\<lparr>sessions := sessions st @
                   [\<lparr>s_session_id = sessionId, s_class_id = classId,
                     s_session_date = now div 86400000, s_start_ts = Some now,
                     s_end_ts = None, s_status = ''open''\<rparr>],
                 next_session_id := Suc sessionId\<rparr>
      in (SessionStarted sessionId, broadcastSessionStatus sessionId ''started'' st1))"

text \<open>A start request that no other request overlaps.\<close>

definition post_start :: "user \<Rightarrow> timestamp \<Rightarrow> nat \<Rightarrow> state \<Rightarrow> response \<times> state" where
  "post_start u now classId st =
     (case start_check u classId st of
        Some answer \<Rightarrow> (answer, st)
      | None \<Rightarrow> start_insert now classId st)"

text \<open>
  Two start requests that overlap: the selects of both are answered from the store as it
  is, before either insert runs; then the first request inserts, then the second.
\<close>

definition overlapping_starts ::
  "user \<Rightarrow> timestamp \<Rightarrow> nat \<Rightarrow> user \<Rightarrow> timestamp \<Rightarrow> nat \<Rightarrow> state \<Rightarrow> response \<times> response \<times> state" where
  "overlapping_starts u1 now1 class1 u2 now2 class2 st =
     (let check1 = start_check u1 class1 st;
          check2 = start_check u2 class2 st;
          (answer1, st1) = (case check1 of Some answer \<Rightarrow> (answer, st) | None \<Rightarrow> start_insert now1 class1 st);
          (answer2, st2) = (case check2 of Some answer \<Rightarrow> (answer, st1) | None \<Rightarrow> start_insert now2 class2 st1)
      in (answer1, answer2, st2))"

text \<open>\<open>POST /:id/stop\<close>, behind \<open>requireProfessor\<close>.\<close>

definition post_stop :: "user \<Rightarrow> timestamp \<Rightarrow> nat \<Rightarrow> state \<Rightarrow> response \<times> state" where
  "post_stop u now classId st =
     (if u_type u \<noteq> ''professor'' then (Error 403 ''Professor access required'', st)
      else case find (\<lambda>s. s_class_id s = classId \<and> is_open s) (sessions st) of
        None \<Rightarrow> (Error 400 ''No active session found'', st)
      | Some activeSession \<Rightarrow>
          let st1 = st\<lparr>sessions :=
                       map (\<lambda>s. if s_session_id s = s_session_id activeSession
                                then s\<lparr>s_end_ts := Some now, s_status := ''closed''\<rparr> else s)
                           (sessions st)\<rparr>
          in (SessionStopped, broadcastSessionStatus (s_session_id activeSession) ''stopped'' st1))"

section \<open>Absence reconciliation\<close>

text \<open>\<open>POST /sessions/:session_id/force-absent\<close>, behind \<open>requireProfessor\<close>.\<close>

definition post_force_absent :: "user \<Rightarrow> timestamp \<Rightarrow> nat \<Rightarrow> state \<Rightarrow> response \<times> state" where
  "post_force_absent u now sessionId st =
     (if u_type u \<noteq> ''professor'' then (Error 403 ''Professor access required'', st)
      else case find (\<lambda>s. s_session_id s = sessionId \<and>
                          (\<exists>c \<in> set (classes st). c_class_id c = s_class_id s \<and> c_professor_id c = u_id u))
                     (sessions st) of
        None \<Rightarrow> (Error 404 ''Session not found'', st)
      | Some session \<Rightarrow>
          let enrolledStudents = map snd (filter (\<lambda>cs. fst cs = s_class_id session) (class_students st));
              presentStudentIds =
                map a_student_id
                  (filter (\<lambda>a. a_session_id a = sessionId \<and> a_status a \<in> {''present'', ''late''})
                          (attendance st));
              absentStudents = filter (\<lambda>s. s \<notin> set presentStudentIds) enrolledStudents
          in if length absentStudents > 0
             then (case insert_rows
                          (map (\<lambda>student. \<lparr>a_session_id = sessionId, a_student_id = student,
                                            a_status = ''absent'', a_checkin_ts = Some now,
                                            a_checkout_ts = None, a_presence_minutes = None,
                                            a_selfie_url = None\<rparr>) absentStudents)
                          (attendance st) of
                     Inl err \<Rightarrow> (Unhandled err, st)
                   | Inr tbl \<Rightarrow> (AbsentComputed (length absentStudents), st\<lparr>attendance := tbl\<rparr>))
             else (AbsentComputed (length absentStudents), st))"

section \<open>Presence ingestion\<close>

record presence_body =
  b_session_id :: "nat option"
  b_student_id :: "string option"
  b_event_type :: "string option"
  b_source :: "string option"
  b_details :: "details option"

text \<open>\<open>details?.image_url || null\<close>.\<close>

definition details_image_url :: "details option \<Rightarrow> string option" where
  "details_image_url d =
     (case d of
        None \<Rightarrow> None
      | Some x \<Rightarrow> (case image_url x of None \<Rightarrow> None | Some url \<Rightarrow> if url = [] then None else Some url))"

text \<open>\<open>POST /\<close> of the presence router, called by the camera pipeline.\<close>

definition post_presence :: "env \<Rightarrow> timestamp \<Rightarrow> presence_body \<Rightarrow> state \<Rightarrow> response \<times> state" where
  "post_presence e now body st =
     (let session_id = (case b_session_id body of None \<Rightarrow> 0 | Some n \<Rightarrow> n);
          student_id = or_default (b_student_id body) [];
          event_type = or_default (b_event_type body) []
      in if session_id = 0 \<or> student_id = [] \<or> event_type = []
         then (Error 400 ''Missing required fields'', st)
         else case find (\<lambda>s. s_session_id s = session_id \<and> is_open s) (sessions st) of
           None \<Rightarrow> (Error 400 ''Session not found or not active'', st)
         | Some session \<Rightarrow>
             let eventId = next_event_id st;
                 source = or_default (b_source body) ''cctv'';
                 st1 = st\<lparr>presence_events := presence_events st @
                          [\<lparr>e_event_id = eventId, e_session_id = session_id, e_student_id = student_id,
                            e_event_type = event_type, e_event_ts = now, e_source = source,
                            e_details = b_details body\<rparr>],
                        next_event_id := Suc eventId\<rparr>;
                 st2 = (if event_type = ''in''
                        then st1\<lparr>attendance :=
                               upsert_attendance session_id student_id
                                 (resolve_status e now (s_start_ts session)) now
                                 (details_image_url (b_details body)) (attendance st1)\<rparr>
                        else if event_type = ''out''
                        then st1\<lparr>attendance := update_checkout session_id student_id now (attendance st1)\<rparr>
                        else st1);
                 st3 = broadcastPresenceEvent session_id
                         (PresenceEventMsg eventId student_id event_type now source (b_details body)) st2
             in (EventRecorded eventId, st3))"

section \<open>Face check-in\<close>

text \<open>Template literals print numbers in decimal.\<close>

function toString_nat :: "nat \<Rightarrow> string" where
  "toString_nat n =
     (if n < 10 then [char_of (48 + n)] else toString_nat (n div 10) @ [char_of (48 + n mod 10)])"
  by pat_completeness auto
termination
  by (relation "measure id") auto

declare toString_nat.simps [simp del]

definition toString_int :: "int \<Rightarrow> string" where
  "toString_int i = (if i < 0 then CHR ''-'' # toString_nat (nat (- i)) else toString_nat (nat i))"

text \<open>
  The object key and the locator of a check-in image:
  \<^verbatim>\<open>checkins/${session_id}/${req.user.id}_${Date.now()}.jpg\<close> and
  \<^verbatim>\<open>${process.env.MINIO_ENDPOINT}/labface/${imageKey}\<close>; an unset variable prints as
  \<open>undefined\<close>.
\<close>

definition imageKey :: "nat \<Rightarrow> string \<Rightarrow> timestamp \<Rightarrow> string" where
  "imageKey session_id uid now =
     ''checkins/'' @ toString_nat session_id @ ''/'' @ uid @ ''_'' @ toString_int now @ ''.jpg''"

definition imageUrl :: "env \<Rightarrow> string \<Rightarrow> string" where
  "imageUrl e key = (case MINIO_ENDPOINT e of None \<Rightarrow> ''undefined'' | Some ep \<Rightarrow> ep) @ ''/labface/'' @ key"

record checkin_body =
  k_session_id :: nat
  k_image_data :: string

text \<open>
  The two collaborators of the check-in are inputs: whether \<open>putObject\<close> succeeded, and
  what the call to the matching service gave, a thrown error or the response's data.
\<close>

record ml_data =
  m_matched :: bool
  m_student_id :: "string option"
  m_score :: "int option"
  m_confidence :: "int option"

datatype ml_result = MLError | MLResponse ml_data

text \<open>
  \<open>POST /checkin\<close>, behind \<open>authenticateToken\<close> and the schema validation of the body.
\<close>

definition post_checkin ::
  "env \<Rightarrow> timestamp \<Rightarrow> user \<Rightarrow> checkin_body \<Rightarrow> bool \<Rightarrow> ml_result \<Rightarrow> state \<Rightarrow> response \<times> state" where
  "post_checkin e now u body putObject_ok ml st =
     (let session_id = k_session_id body in
      case find (\<lambda>s. s_session_id s = session_id \<and> is_open s) (sessions st) of
        None \<Rightarrow> (Error 400 ''Session not found or not active'', st)
      | Some session \<Rightarrow>
          let key = imageKey session_id (u_id u) now
          in if \<not> putObject_ok then (Unhandled StorageError, st)
             else
               let st0 = st\<lparr>objects := objects st @ [(key, k_image_data body)]\<rparr>;
                   url = imageUrl e key
               in (case ml of
                    MLError \<Rightarrow> (Failure 500 ''Face recognition service unavailable'', st0)
                  | MLResponse d \<Rightarrow>
                      if m_matched d \<and> m_student_id d = Some (u_id u)
                      then
                        let isLate = isStudentLate e now (s_start_ts session);
                            status = resolve_status e now (s_start_ts session);
                            st1 = st0\<lparr>attendance :=
                                    upsert_attendance session_id (u_id u) status now (Some url)
                                      (attendance st0)\<rparr>;
                            st2 = st1\<lparr>presence_events := presence_events st1 @
                                    [\<lparr>e_event_id = next_event_id st1, e_session_id = session_id,
                                      e_student_id = u_id u, e_event_type = ''in'', e_event_ts = now,
                                      e_source = ''face'',
                                      e_details = Some \<lparr>image_url = Some url, score = m_score d,
                                                         confidence = m_confidence d\<rparr>\<rparr>],
                                  next_event_id := Suc (next_event_id st1)\<rparr>;
                            st3 = broadcastPresenceEvent session_id
                                    (CheckinEventMsg (u_id u) now (m_score d) url) st2
                        in (CheckedIn status (if isLate then ''Checked in late'' else ''Checked in successfully''),
                            st3)
                      else (Failure 400 ''Face recognition failed. Please try again or contact support.'', st0)))"

section \<open>Event histories\<close>

text \<open>Requests of the camera pipeline, served one after the other.\<close>

fun post_presence_all :: "env \<Rightarrow> (timestamp \<times> presence_body) list \<Rightarrow> state \<Rightarrow> state" where
  "post_presence_all e [] st = st"
| "post_presence_all e ((now, body) # rest) st = post_presence_all e rest (snd (post_presence e now body st))"

text \<open>The uniqueness constraint of the attendance table, as a predicate on its rows.\<close>

definition unique_attendance :: "attendance_row list \<Rightarrow> bool" where
  "unique_attendance tbl = distinct (map att_key tbl)"

definition rows_for :: "attendance_row list \<Rightarrow> nat \<times> string \<Rightarrow> attendance_row list" where
  "rows_for tbl k = filter (\<lambda>r. att_key r = k) tbl"

text \<open>
  A request that is an accepted entry of the pair \<open>k\<close>: the required fields are there, the
  event type is \<open>in\<close>, and the session is open. The second predicate only looks at what the
  request asks for.
\<close>

definition enters :: "state \<Rightarrow> presence_body \<Rightarrow> nat \<times> string \<Rightarrow> bool" where
  "enters st body k =
     (b_session_id body = Some (fst k) \<and> fst k \<noteq> 0 \<and> b_student_id body = Some (snd k) \<and> snd k \<noteq> [] \<and>
      b_event_type body = Some ''in'' \<and>
      (\<exists>s \<in> set (sessions st). s_session_id s = fst k \<and> is_open s))"

definition is_enter_for :: "presence_body \<Rightarrow> nat \<times> string \<Rightarrow> bool" where
  "is_enter_for body k =
     (b_event_type body = Some ''in'' \<and> b_session_id body = Some (fst k) \<and> b_student_id body = Some (snd k))"

text \<open>The open sessions of a class.\<close>

definition open_sessions :: "state \<Rightarrow> nat \<Rightarrow> session list" where
  "open_sessions st classId = filter (\<lambda>s. s_class_id s = classId \<and> is_open s) (sessions st)"

text \<open>A lifecycle operation: a start or a stop, by some principal at some time, on a class.\<close>

datatype lifecycle_op = Start user timestamp nat | Stop user timestamp nat

fun apply_op :: "lifecycle_op \<Rightarrow> state \<Rightarrow> response \<times> state" where
  "apply_op (Start u now classId) st = post_start u now classId st"
| "apply_op (Stop u now classId) st = post_stop u now classId st"

fun run_ops :: "lifecycle_op list \<Rightarrow> state \<Rightarrow> state" where
  "run_ops [] st = st"
| "run_ops (op # ops) st = run_ops ops (snd (apply_op op st))"

section \<open>Example states\<close>

definition prof1 :: user where
  "prof1 = \<lparr>u_id = ''p1'', u_type = ''professor''\<rparr>"

definition st_fresh :: state where
  "st_fresh = \<lparr>classes = [\<lparr>c_class_id = 1, c_professor_id = ''p1''\<rparr>],
               class_students = [(1, ''s1'')], sessions = [], next_session_id = 1,
               attendance = [], presence_events = [], next_event_id = 1, objects = [], emitted = []\<rparr>"

definition session1 :: session where
  "session1 = \<lparr>s_session_id = 1, s_class_id = 1, s_session_date = 0, s_start_ts = Some 0,
                s_end_ts = None, s_status = ''open''\<rparr>"

definition st_open :: state where
  "st_open = st_fresh\<lparr>sessions := [session1], next_session_id := 2\<rparr>"

definition env0 :: env where
  "env0 = \<lparr>LATE_THRESHOLD_MINUTES = None, MINIO_ENDPOINT = None\<rparr>"

definition enter_a :: presence_body where
  "enter_a = \<lparr>b_session_id = Some 1, b_student_id = Some ''s1'', b_event_type = Some ''in'',
              b_source = None,
              b_details = Some \<lparr>image_url = Some ''a.jpg'', score = None, confidence = Some 90\<rparr>\<rparr>"

definition enter_b :: presence_body where
  "enter_b = \<lparr>b_session_id = Some 1, b_student_id = Some ''s1'', b_event_type = Some ''in'',
              b_source = None,
              b_details = Some \<lparr>image_url = Some ''b.jpg'', score = None, confidence = Some 10\<rparr>\<rparr>"

definition exit_s1 :: presence_body where
  "exit_s1 = \<lparr>b_session_id = Some 1, b_student_id = Some ''s1'', b_event_type = Some ''out'',
              b_source = None, b_details = None\<rparr>"

text \<open>The answers that report a failure to the caller.\<close>

fun is_failure :: "response \<Rightarrow> bool" where
  "is_failure (Error code msg) = True"
| "is_failure (Failure code msg) = True"
| "is_failure (Unhandled err) = True"
| "is_failure _ = False"

definition student1 :: user where
  "student1 = \<lparr>u_id = ''s1'', u_type = ''student''\<rparr>"

definition checkin1 :: checkin_body where
  "checkin1 = \<lparr>k_session_id = 1, k_image_data = ''aGk=''\<rparr>"

definition match_s1 :: ml_data where
  "match_s1 = \<lparr>m_matched = True, m_student_id = Some ''s1'', m_score = Some 82, m_confidence = Some 90\<rparr>"

definition match_s2 :: ml_data where
  "match_s2 = \<lparr>m_matched = True, m_student_id = Some ''s2'', m_score = Some 82, m_confidence = Some 90\<rparr>"

definition row_a :: attendance_row where
  "row_a = \<lparr>a_session_id = 1, a_student_id = ''s1'', a_status = ''present'', a_checkin_ts = Some 600000,
            a_checkout_ts = None, a_presence_minutes = None, a_selfie_url = Some ''a.jpg''\<rparr>"

definition st_present :: state where
  "st_present = st_open\<lparr>attendance := [row_a]\<rparr>"

text \<open>A string of decimal digits, as code units.\<close>

definition is_digits :: "js_string \<Rightarrow> bool" where
  "is_digits ds = (\<forall>c \<in> set ds. 48 \<le> c \<and> c \<le> 57)"

section \<open>The resolver returns late exactly past the threshold\<close>

lemma parseInt_30: "parseInt (code_units ''30'') = Some 30"
  by (simp add: parseInt_def strip_sign_def strip_radix_def is_space_def digit_val_def code_units_def)

lemma code_units_toString:
  "code_units (toString_nat n) =
     (if n < 10 then [48 + n] else code_units (toString_nat (n div 10)) @ [48 + n mod 10])"
proof (cases "n < 10")
  case True
  then have "(48 + n) mod 256 = 48 + n" by simp
  with True show ?thesis by (subst toString_nat.simps) (simp add: code_units_def)
next
  case False
  have "n mod 10 < 10" by simp
  then have "(48 + n mod 10) mod 256 = 48 + n mod 10" by simp
  with False show ?thesis by (subst toString_nat.simps) (simp add: code_units_def)
qed

lemma parse_digits_decimal:
  "is_digits ds \<Longrightarrow> ds \<noteq> [] \<Longrightarrow>
   parse_digits 10 ds acc =
     Some (foldl (\<lambda>a c. 10 * a + (c - 48)) (case acc of None \<Rightarrow> 0 | Some a \<Rightarrow> a) ds)"
proof (induction ds arbitrary: acc)
  case Nil
  then show ?case by simp
next
  case (Cons c cs)
  from Cons.prems have c: "48 \<le> c" "c \<le> 57" and cs: "is_digits cs"
    by (simp_all add: is_digits_def)
  from c have dv: "digit_val c = Some (c - 48)" and lt: "c - 48 < 10"
    by (simp_all add: digit_val_def)
  show ?case
  proof (cases "cs = []")
    case True
    with dv lt show ?thesis by simp
  next
    case False
    with dv lt Cons.IH [OF cs False] show ?thesis by simp
  qed
qed

lemma digits_toString: "is_digits (code_units (toString_nat n))"
proof (induction n rule: toString_nat.induct)
  case (1 n)
  show ?case
  proof (cases "n < 10")
    case True
    then show ?thesis by (subst code_units_toString) (simp add: is_digits_def)
  next
    case False
    have "n mod 10 < 10" by simp
    then have "48 + n mod 10 \<le> 57" by linarith
    with False "1.IH" show ?thesis
      by (subst code_units_toString) (simp add: is_digits_def)
  qed
qed

lemma nonempty_toString: "code_units (toString_nat n) \<noteq> []"
  by (subst code_units_toString) simp

lemma value_toString: "foldl (\<lambda>a c. 10 * a + (c - 48)) 0 (code_units (toString_nat n)) = n"
proof (induction n rule: toString_nat.induct)
  case (1 n)
  show ?case
  proof (cases "n < 10")
    case True
    then show ?thesis by (subst code_units_toString) simp
  next
    case False
    with "1.IH" show ?thesis by (subst code_units_toString) simp
  qed
qed

lemma parseInt_digits:
  assumes "is_digits ds" and "ds \<noteq> []"
  shows "parseInt ds = Some (int (foldl (\<lambda>a c. 10 * a + (c - 48)) 0 ds))"
proof -
  from assms obtain c cs where ds: "ds = c # cs" by (cases ds) auto
  with assms(1) have c: "48 \<le> c" "c \<le> 57" by (simp_all add: is_digits_def)
  then have nospace: "\<not> is_space c" by (auto simp: is_space_def)
  from c have sign: "strip_sign ds = (False, ds)" by (simp add: strip_sign_def ds)
  have radix: "strip_radix ds = (10, ds)"
  proof (cases cs)
    case Nil
    then show ?thesis by (simp add: strip_radix_def ds)
  next
    case (Cons b bs)
    with assms(1) ds have "48 \<le> b \<and> b \<le> 57" by (simp add: is_digits_def)
    then have "b \<noteq> 120 \<and> b \<noteq> 88" by simp
    with Cons show ?thesis by (simp add: strip_radix_def ds)
  qed
  from nospace have "dropWhile is_space ds = ds" by (simp add: ds)
  with sign radix parse_digits_decimal [OF assms, of None] show ?thesis
    by (simp add: parseInt_def)
qed

lemma parseInt_decimal: "parseInt (code_units (toString_nat n)) = Some (int n)"
  using parseInt_digits [OF digits_toString nonempty_toString, of n] by (simp add: value_toString)

lemma threshold_configured:
  "lateThresholdMinutes \<lparr>LATE_THRESHOLD_MINUTES = Some (code_units (toString_nat n)), MINIO_ENDPOINT = ep\<rparr>
     = Some (int n)"
  using nonempty_toString [of n] by (simp add: lateThresholdMinutes_def or_default_def parseInt_decimal)

lemma toString_45: "toString_nat 45 = ''45''"
  by code_simp

lemma parseInt_abc: "parseInt (code_units ''abc'') = None"
  by (simp add: parseInt_def strip_sign_def strip_radix_def is_space_def digit_val_def code_units_def)

lemma parseInt_nbsp_45: "parseInt (0xA0 # code_units ''45'') = Some 45"
  by (simp add: parseInt_def strip_sign_def strip_radix_def is_space_def digit_val_def code_units_def)

lemma minutes_compare: "((of_int a :: rat) / (1000 * 60) > of_int t) = (a > t * 60000)"
proof -
  have "((of_int a :: rat) / 60000 > of_int t) = (of_int t * 60000 < (of_int a :: rat))"
    by (simp add: pos_less_divide_eq)
  also have "\<dots> = ((of_int (t * 60000) :: rat) < of_int a)" by simp
  also have "\<dots> = (t * 60000 < a)" by (simp only: of_int_less_iff)
  finally show ?thesis by simp
qed

lemma isStudentLate_iff:
  "isStudentLate e now start =
     (case lateThresholdMinutes e of None \<Rightarrow> False | Some t \<Rightarrow> now - getTime start > t * 60000)"
  unfolding isStudentLate_def Let_def
  by (simp only: minutes_compare split: option.splits)

lemma threshold_default:
  "lateThresholdMinutes \<lparr>LATE_THRESHOLD_MINUTES = None, MINIO_ENDPOINT = ep\<rparr> = Some 30"
  by (simp add: lateThresholdMinutes_def or_default_def parseInt_30)

lemma threshold_30:
  "lateThresholdMinutes \<lparr>LATE_THRESHOLD_MINUTES = Some (code_units ''30''), MINIO_ENDPOINT = ep\<rparr> = Some 30"
  by (simp add: lateThresholdMinutes_def or_default_def parseInt_30)

lemma threshold_nbsp_45:
  "lateThresholdMinutes \<lparr>LATE_THRESHOLD_MINUTES = Some (0xA0 # code_units ''45''), MINIO_ENDPOINT = ep\<rparr> = Some 45"
  by (simp add: lateThresholdMinutes_def or_default_def parseInt_nbsp_45)

lemma threshold_abc:
  "lateThresholdMinutes \<lparr>LATE_THRESHOLD_MINUTES = Some (code_units ''abc''), MINIO_ENDPOINT = ep\<rparr> = None"
  by (simp add: lateThresholdMinutes_def or_default_def parseInt_abc) (simp add: code_units_def)

text \<open>
  Claim C8. The resolver is a function of the event time (the clock reading), the session
  start and the policy (the environment), so equal inputs give equal results. When the
  variable \<open>LATE_THRESHOLD_MINUTES\<close> holds the decimal numeral of \<open>n\<close>, the result is
  late exactly when the event time minus the session start exceeds \<open>n\<close> minutes, and
  present otherwise; an unset variable stands for 30. In general the threshold is the number
  that \<open>parseInt\<close> reads from the variable, and a variable that holds no number makes
  every entry present. With a start at 09:00 and a threshold of 30 minutes, an entry at
  09:10 is present and an entry at 09:45 is late. A threshold written as 45 after a no-break
  space is 45.
\<close>

theorem resolver_late_iff_over_threshold:
  "resolve_status \<lparr>LATE_THRESHOLD_MINUTES = Some (code_units (toString_nat n)), MINIO_ENDPOINT = ep\<rparr> now start =
     (if now - getTime start > int n * 60000 then ''late'' else ''present'')
   \<and> resolve_status \<lparr>LATE_THRESHOLD_MINUTES = None, MINIO_ENDPOINT = ep\<rparr> now start =
     (if now - getTime start > 30 * 60000 then ''late'' else ''present'')
   \<and> (lateThresholdMinutes e = Some t \<longrightarrow>
        isStudentLate e now start = (now - getTime start > t * 60000) \<and>
        resolve_status e now start = (if now - getTime start > t * 60000 then ''late'' else ''present''))
   \<and> (lateThresholdMinutes e = None \<longrightarrow> resolve_status e now start = ''present'')
   \<and> resolve_status \<lparr>LATE_THRESHOLD_MINUTES = Some (code_units ''30''), MINIO_ENDPOINT = None\<rparr>
        (9 * 3600000 + 10 * 60000) (Some (9 * 3600000)) = ''present''
   \<and> resolve_status \<lparr>LATE_THRESHOLD_MINUTES = Some (code_units ''30''), MINIO_ENDPOINT = None\<rparr>
        (9 * 3600000 + 45 * 60000) (Some (9 * 3600000)) = ''late''
   \<and> resolve_status \<lparr>LATE_THRESHOLD_MINUTES = Some (0xA0 # code_units ''45''), MINIO_ENDPOINT = None\<rparr>
        (40 * 60000) (Some 0) = ''present''
   \<and> resolve_status \<lparr>LATE_THRESHOLD_MINUTES = Some (0xA0 # code_units ''45''), MINIO_ENDPOINT = None\<rparr>
        (46 * 60000) (Some 0) = ''late''"
  by (simp add: resolve_status_def isStudentLate_iff threshold_30 threshold_default
        threshold_configured threshold_nbsp_45 getTime_def)

theorem resolver_late_iff_over_threshold_witness:
  "lateThresholdMinutes \<lparr>LATE_THRESHOLD_MINUTES = None, MINIO_ENDPOINT = None\<rparr> = Some 30
   \<and> isStudentLate \<lparr>LATE_THRESHOLD_MINUTES = None, MINIO_ENDPOINT = None\<rparr> 1800001 (Some 0)
   \<and> resolve_status \<lparr>LATE_THRESHOLD_MINUTES = None, MINIO_ENDPOINT = None\<rparr> 1800000 (Some 0) = ''present''
   \<and> lateThresholdMinutes \<lparr>LATE_THRESHOLD_MINUTES = Some (code_units ''abc''), MINIO_ENDPOINT = None\<rparr> = None
   \<and> resolve_status \<lparr>LATE_THRESHOLD_MINUTES = Some (code_units ''abc''), MINIO_ENDPOINT = None\<rparr>
        86400000 (Some 0) = ''present''
   \<and> resolve_status \<lparr>LATE_THRESHOLD_MINUTES = Some (code_units ''45''), MINIO_ENDPOINT = None\<rparr>
        (40 * 60000) (Some 0) = ''present''
   \<and> resolve_status \<lparr>LATE_THRESHOLD_MINUTES = Some (code_units ''45''), MINIO_ENDPOINT = None\<rparr>
        (46 * 60000) (Some 0) = ''late''"
proof -
  let ?d = "\<lparr>LATE_THRESHOLD_MINUTES = None, MINIO_ENDPOINT = None\<rparr>"
  let ?x = "\<lparr>LATE_THRESHOLD_MINUTES = Some (code_units ''abc''), MINIO_ENDPOINT = None\<rparr>"
  have d: "lateThresholdMinutes ?d = Some 30" by (rule threshold_default)
  have x: "lateThresholdMinutes ?x = None" by (rule threshold_abc)
  note a = resolver_late_iff_over_threshold [where e = ?d and t = 30 and now = 1800001 and start = "Some 0" and n = 45]
  note b = resolver_late_iff_over_threshold [where e = ?d and t = 30 and now = 1800000 and start = "Some 0" and n = 45]
  note c = resolver_late_iff_over_threshold [where e = ?x and now = 86400000 and start = "Some 0" and n = 45
              and ep = None]
  note c40 = resolver_late_iff_over_threshold [where n = 45 and ep = None and now = "40 * 60000" and start = "Some 0",
               THEN conjunct1]
  note c46 = resolver_late_iff_over_threshold [where n = 45 and ep = None and now = "46 * 60000" and start = "Some 0",
               THEN conjunct1]
  from a d have 1: "isStudentLate ?d 1800001 (Some 0)" by (simp add: getTime_def)
  from b d have 2: "resolve_status ?d 1800000 (Some 0) = ''present''" by (simp add: getTime_def)
  from c x have 3: "resolve_status ?x 86400000 (Some 0) = ''present''" by blast
  from c40 have 4: "resolve_status \<lparr>LATE_THRESHOLD_MINUTES = Some (code_units ''45''), MINIO_ENDPOINT = None\<rparr>
        (40 * 60000) (Some 0) = ''present''" by (simp add: toString_45 getTime_def)
  from c46 have 5: "resolve_status \<lparr>LATE_THRESHOLD_MINUTES = Some (code_units ''45''), MINIO_ENDPOINT = None\<rparr>
        (46 * 60000) (Some 0) = ''late''" by (simp add: toString_45 getTime_def)
  from d x 1 2 3 4 5 show ?thesis by (intro conjI)
qed

section \<open>At most one open session per class\<close>

lemma sessions_broadcast: "sessions (broadcastSessionStatus i s st) = sessions st"
  by (simp add: broadcastSessionStatus_def)

lemma find_open_None: 
  "find (\<lambda>s. s_class_id s = c \<and> is_open s) (sessions st) = None \<longleftrightarrow> open_sessions st c = []"
  by (auto simp: find_None_iff open_sessions_def filter_empty_conv)

lemma post_start_sessions:
  "sessions (snd (post_start u now c st)) = sessions st \<or>
   (open_sessions st c = [] \<and>
    sessions (snd (post_start u now c st)) = sessions st @
       [\<lparr>s_session_id = next_session_id st, s_class_id = c,
         s_session_date = now div 86400000, s_start_ts = Some now,
         s_end_ts = None, s_status = ''open''\<rparr>])"
  by (auto simp: post_start_def start_check_def start_insert_def Let_def sessions_broadcast find_open_None [symmetric] split: option.splits)

lemma post_start_inv:
  assumes "\<forall>c. length (open_sessions st c) \<le> 1"
  shows "\<forall>c. length (open_sessions (snd (post_start u now k st)) c) \<le> 1"
  using post_start_sessions [of u now k st] assms
  by (auto simp: open_sessions_def is_open_def)

lemma close_by_id_open_le:
  "length (filter (\<lambda>s. s_class_id s = c \<and> is_open s)
            (map (\<lambda>s. if s_session_id s = i then s\<lparr>s_end_ts := Some now, s_status := ''closed''\<rparr> else s) xs))
   \<le> length (filter (\<lambda>s. s_class_id s = c \<and> is_open s) xs)"
  by (induction xs) (auto simp: is_open_def)

lemma post_stop_sessions:
  "sessions (snd (post_stop u now c st)) = sessions st \<or>
   (\<exists>i. sessions (snd (post_stop u now c st)) =
      map (\<lambda>s. if s_session_id s = i then s\<lparr>s_end_ts := Some now, s_status := ''closed''\<rparr> else s) (sessions st))"
  by (auto simp: post_stop_def Let_def sessions_broadcast split: option.splits)

lemma post_stop_open_le:
  "length (open_sessions (snd (post_stop u now k st)) c) \<le> length (open_sessions st c)"
  using post_stop_sessions [of u now k st] close_by_id_open_le [of c _ now "sessions st"]
  by (auto simp: open_sessions_def)

lemma post_stop_inv:
  assumes "\<forall>c. length (open_sessions st c) \<le> 1"
  shows "\<forall>c. length (open_sessions (snd (post_stop u now k st)) c) \<le> 1"
  using assms post_stop_open_le [of u now k st] by (meson le_trans)

lemma apply_op_inv:
  "\<forall>c. length (open_sessions st c) \<le> 1 \<Longrightarrow> \<forall>c. length (open_sessions (snd (apply_op op st)) c) \<le> 1"
  using post_start_inv post_stop_inv by (cases op) simp_all

lemma run_ops_inv:
  "\<forall>c. length (open_sessions st c) \<le> 1 \<Longrightarrow> \<forall>c. length (open_sessions (run_ops ops st) c) \<le> 1"
proof (induction ops arbitrary: st)
  case Nil
  then show ?case by simp
next
  case (Cons op ops)
  from Cons.prems have "\<forall>c. length (open_sessions (snd (apply_op op st)) c) \<le> 1"
    by (rule apply_op_inv)
  then show ?case using Cons.IH by simp
qed

lemma post_start_conflict_state:
  "open_sessions st c \<noteq> [] \<Longrightarrow> snd (post_start u now c st) = st"
  by (auto simp: post_start_def start_check_def start_insert_def find_open_None split: option.splits)

lemma post_start_conflict_answer:
  assumes "open_sessions st c \<noteq> []" and "u_type u = ''professor''"
    and "\<exists>k \<in> set (classes st). c_class_id k = c \<and> c_professor_id k = u_id u"
  shows "fst (post_start u now c st) = Error 400 ''Session already active for this class''"
proof -
  from assms(3) have "find (\<lambda>k. c_class_id k = c \<and> c_professor_id k = u_id u) (classes st) \<noteq> None"
    by (auto simp: find_None_iff)
  moreover from assms(1) have "find (\<lambda>s. s_class_id s = c \<and> is_open s) (sessions st) \<noteq> None"
    by (simp add: find_open_None)
  ultimately show ?thesis using assms(2)
    by (auto simp: post_start_def start_check_def start_insert_def split: option.splits)
qed

lemma start_keeps_sessions: "s \<in> set (sessions st) \<Longrightarrow> s \<in> set (sessions (snd (post_start u now c st)))"
  using post_start_sessions [of u now c st] by auto

lemma only_stop_leaves_open:
  "s \<in> set (sessions st) \<Longrightarrow> s \<notin> set (sessions (snd (apply_op op st))) \<Longrightarrow> \<exists>u now c. op = Stop u now c"
  by (cases op) (auto simp: start_keeps_sessions)


lemma post_presence_sessions: "sessions (snd (post_presence e now body st)) = sessions st"
  by (auto simp: post_presence_def Let_def broadcastPresenceEvent_def split: option.splits)

lemma post_checkin_sessions: "sessions (snd (post_checkin e now u cb ok ml st)) = sessions st"
  by (auto simp: post_checkin_def Let_def broadcastPresenceEvent_def split: option.splits ml_result.splits)

lemma post_force_absent_sessions: "sessions (snd (post_force_absent u now sid st)) = sessions st"
  by (auto simp: post_force_absent_def Let_def split: option.splits sum.splits)

lemma post_start_fails_when_open:
  assumes "open_sessions st c \<noteq> []"
  shows "\<exists>code msg. fst (post_start u now c st) = Error code msg"
  using assms by (auto simp: post_start_def start_check_def start_insert_def find_open_None split: option.splits)

text \<open>
  Start and stop requests that do not overlap keep the invariant. From a state in which
  every class has at most one open session (the empty store is one), every sequence of such
  requests leads to such a state. A start for a class that has an open session changes
  nothing and answers an error; for the professor who owns the class the error is the
  400 answer that a session is already active. An open session leaves the table as it
  was only through a stop: a start only appends, and the presence, check-in and
  force-absent handlers do not write the sessions.
\<close>

lemma serial_one_open_session_per_class:
  "((\<forall>c. length (open_sessions st c) \<le> 1) \<longrightarrow> (\<forall>c. length (open_sessions (run_ops ops st) c) \<le> 1))
   \<and> (open_sessions st c \<noteq> [] \<longrightarrow>
        snd (post_start u now c st) = st \<and> (\<exists>code msg. fst (post_start u now c st) = Error code msg) \<and>
        (u_type u = ''professor'' \<and> (\<exists>k \<in> set (classes st). c_class_id k = c \<and> c_professor_id k = u_id u)
           \<longrightarrow> fst (post_start u now c st) = Error 400 ''Session already active for this class''))
   \<and> (s \<in> set (sessions st) \<and> is_open s \<and> s \<notin> set (sessions (snd (apply_op op st)))
        \<longrightarrow> (\<exists>u' now' c'. op = Stop u' now' c'))
   \<and> sessions (snd (post_presence e now body st)) = sessions st
   \<and> sessions (snd (post_checkin e now u cb ok ml st)) = sessions st
   \<and> sessions (snd (post_force_absent u now sid st)) = sessions st"
  using run_ops_inv [of st ops] post_start_conflict_state [of st c u now]
    post_start_fails_when_open [of st c u now] post_start_conflict_answer [of st c u now]
    only_stop_leaves_open [of s st op] post_presence_sessions [of e now body st]
    post_checkin_sessions [of e now u cb ok ml st] post_force_absent_sessions [of u now sid st]
  by blast

lemma serial_one_open_session_per_class_example:
  "(\<forall>c. length (open_sessions st_open c) \<le> 1)
   \<and> (\<forall>c. length (open_sessions (run_ops [Start prof1 7 1, Stop prof1 8 1, Start prof1 9 1] st_open) c) \<le> 1)
   \<and> open_sessions st_open 1 \<noteq> []
   \<and> u_type prof1 = ''professor''
   \<and> (\<exists>k \<in> set (classes st_open). c_class_id k = 1 \<and> c_professor_id k = u_id prof1)
   \<and> post_start prof1 7 1 st_open = (Error 400 ''Session already active for this class'', st_open)
   \<and> session1 \<in> set (sessions st_open) \<and> is_open session1
   \<and> session1 \<notin> set (sessions (snd (apply_op (Stop prof1 8 1) st_open)))"
proof -
  have inv: "\<forall>c. length (open_sessions st_open c) \<le> 1"
    by (simp add: open_sessions_def st_open_def)
  have op1: "open_sessions st_open 1 \<noteq> []"
    by (simp add: open_sessions_def st_open_def st_fresh_def session1_def is_open_def)
  have own: "u_type prof1 = ''professor'' \<and>
             (\<exists>k \<in> set (classes st_open). c_class_id k = 1 \<and> c_professor_id k = u_id prof1)"
    by (simp add: prof1_def st_open_def st_fresh_def)
  have gone: "session1 \<in> set (sessions st_open) \<and> is_open session1
              \<and> session1 \<notin> set (sessions (snd (apply_op (Stop prof1 8 1) st_open)))"
    by (simp add: st_open_def st_fresh_def session1_def prof1_def is_open_def post_stop_def
          broadcastSessionStatus_def)
  from serial_one_open_session_per_class
         [where st = st_open and ops = "[Start prof1 7 1, Stop prof1 8 1, Start prof1 9 1]" and c = 1
            and u = prof1 and now = 7 and s = session1 and op = "Stop prof1 8 1"]
       inv op1 own gone
  show ?thesis by (metis prod.collapse)
qed

text \<open>
  Claim C3 at a concrete store: one class of professor p1 and no session. Two start requests
  of p1 for the class overlap: both selects find no open session, both inserts run, both
  requests are answered with a new session id, and the class has two open sessions. Served
  one after the other, the second request is answered that a session is already active.
\<close>

theorem overlapping_starts_two_open_sessions:
  "start_check prof1 1 st_fresh = None
   \<and> fst (overlapping_starts prof1 7 1 prof1 7 1 st_fresh) = SessionStarted 1
   \<and> fst (snd (overlapping_starts prof1 7 1 prof1 7 1 st_fresh)) = SessionStarted 2
   \<and> length (open_sessions (snd (snd (overlapping_starts prof1 7 1 prof1 7 1 st_fresh))) 1) = 2
   \<and> fst (post_start prof1 7 1 (snd (post_start prof1 7 1 st_fresh))) =
        Error 400 ''Session already active for this class''"
  by (simp add: overlapping_starts_def post_start_def start_check_def start_insert_def st_fresh_def
        prof1_def open_sessions_def is_open_def broadcastSessionStatus_def Let_def)

section \<open>Stopping a session\<close>

lemma find_filter: "find P xs = (case filter P xs of [] \<Rightarrow> None | x # _ \<Rightarrow> Some x)"
  by (induction xs) auto

text \<open>
  Claim C5, as the code has it. For a professor and a class with an open session, stop
  answers success, sets the end timestamp and the status closed on the first open session of
  the class, and sends the status message \<open>stopped\<close> to the room of that session. Nothing
  else changes: the attendance table is as it was, and no reconciliation is run.
\<close>

theorem stop_closes_and_broadcasts:
  assumes "u_type u = ''professor''" and "open_sessions st c = a # rest"
  shows "post_stop u now c st =
           (SessionStopped,
            st\<lparr>sessions := map (\<lambda>s. if s_session_id s = s_session_id a
                                     then s\<lparr>s_end_ts := Some now, s_status := ''closed''\<rparr> else s)
                                (sessions st),
               emitted := emitted st @ [(s_session_id a, SessionStatusMsg (s_session_id a) ''stopped'')]\<rparr>)
         \<and> attendance (snd (post_stop u now c st)) = attendance st
         \<and> a\<lparr>s_end_ts := Some now, s_status := ''closed''\<rparr> \<in> set (sessions (snd (post_stop u now c st)))"
proof -
  from assms(2) have f: "find (\<lambda>s. s_class_id s = c \<and> is_open s) (sessions st) = Some a"
    by (simp add: find_filter open_sessions_def)
  from assms(2) have "a \<in> set (open_sessions st c)" by simp
  then have mem: "a \<in> set (sessions st)" by (simp add: open_sessions_def)
  have eq: "post_stop u now c st =
           (SessionStopped,
            st\<lparr>sessions := map (\<lambda>s. if s_session_id s = s_session_id a
                                     then s\<lparr>s_end_ts := Some now, s_status := ''closed''\<rparr> else s)
                                (sessions st),
               emitted := emitted st @ [(s_session_id a, SessionStatusMsg (s_session_id a) ''stopped'')]\<rparr>)"
    using assms(1) f by (simp add: post_stop_def broadcastSessionStatus_def)
  have "a\<lparr>s_end_ts := Some now, s_status := ''closed''\<rparr> \<in>
     set (map (\<lambda>s. if s_session_id s = s_session_id a
                                     then s\<lparr>s_end_ts := Some now, s_status := ''closed''\<rparr> else s)
                                (sessions st))"
    using mem by (force simp: image_iff)
  then show ?thesis using eq by simp
qed

theorem stop_closes_and_broadcasts_witness:
  "u_type prof1 = ''professor'' \<and> open_sessions st_open 1 = [session1]
   \<and> sessions (snd (post_stop prof1 8 1 st_open)) = [session1\<lparr>s_end_ts := Some 8, s_status := ''closed''\<rparr>]
   \<and> emitted (snd (post_stop prof1 8 1 st_open)) = [(1, SessionStatusMsg 1 ''stopped'')]"
proof -
  have h1: "u_type prof1 = ''professor''" by (simp add: prof1_def)
  have h2: "open_sessions st_open 1 = [session1]"
    by (simp add: open_sessions_def st_open_def st_fresh_def session1_def is_open_def)
  from stop_closes_and_broadcasts [OF h1 h2, of 8] h1 h2 show ?thesis
    by (simp add: st_open_def st_fresh_def session1_def)
qed

text \<open>
  Claim C5 as stated fails: after a successful stop of a session whose class has an enrolled
  student without attendance, the attendance table is still empty; the absent row appears
  only when the force-absent request is made.
\<close>

theorem stop_runs_no_reconciliation_counterexample:
  "fst (post_stop prof1 8 1 st_open) = SessionStopped
   \<and> attendance (snd (post_stop prof1 8 1 st_open)) = []
   \<and> attendance (snd (post_force_absent prof1 8 1 (snd (post_stop prof1 8 1 st_open)))) =
       [\<lparr>a_session_id = 1, a_student_id = ''s1'', a_status = ''absent'', a_checkin_ts = Some 8,
         a_checkout_ts = None, a_presence_minutes = None, a_selfie_url = None\<rparr>]"
  by (simp add: post_stop_def post_force_absent_def st_open_def st_fresh_def session1_def prof1_def
        is_open_def broadcastSessionStatus_def has_row_def att_key_def)

section \<open>Absence reconciliation: the rows it creates, and a second run\<close>

lemma insert_rows_Inr: "insert_rows rs tbl = Inr tbl' \<Longrightarrow> tbl' = tbl @ rs"
proof (induction rs arbitrary: tbl)
  case Nil
  then show ?case by simp
next
  case (Cons r rs)
  from Cons.prems have "insert_rows rs (tbl @ [r]) = Inr tbl'"
    by (simp split: if_splits)
  then have "tbl' = (tbl @ [r]) @ rs" by (rule Cons.IH)
  then show ?case by simp
qed

text \<open>
  Claim C7, as the code has it. When the force-absent request succeeds, the attendance table
  is the old one followed by one row per absent student: status absent, the check-in time
  set to the clock reading of the request, and the check-out time, the minutes and the
  selfie null. The absent students are enrolled in the class of the session and have no
  row with status present or late in that session.
\<close>

theorem force_absent_rows:
  assumes "post_force_absent u now sid st = (AbsentComputed n, st')"
  shows "\<exists>absent. length absent = n
           \<and> attendance st' = attendance st @
                map (\<lambda>student. \<lparr>a_session_id = sid, a_student_id = student, a_status = ''absent'',
                                 a_checkin_ts = Some now, a_checkout_ts = None,
                                 a_presence_minutes = None, a_selfie_url = None\<rparr>) absent
           \<and> (\<forall>student \<in> set absent.
                 (\<exists>s \<in> set (sessions st). s_session_id s = sid \<and> (s_class_id s, student) \<in> set (class_students st))
                 \<and> \<not> (\<exists>a \<in> set (attendance st). a_session_id a = sid \<and> a_student_id a = student
                                                   \<and> a_status a \<in> {''present'', ''late''}))"
proof -
  let ?P = "\<lambda>s. s_session_id s = sid \<and>
                (\<exists>c \<in> set (classes st). c_class_id c = s_class_id s \<and> c_professor_id c = u_id u)"
  from assms obtain session where f: "find ?P (sessions st) = Some session"
    by (auto simp: post_force_absent_def split: if_splits option.splits)
  then have sess: "session \<in> set (sessions st)" "s_session_id session = sid"
    by (auto simp: find_Some_iff)
  from assms have prof: "u_type u = ''professor''"
    by (auto simp: post_force_absent_def split: if_splits)
  define absent where "absent =
     filter (\<lambda>s. s \<notin> set (map a_student_id
                  (filter (\<lambda>a. a_session_id a = sid \<and> a_status a \<in> {''present'', ''late''}) (attendance st))))
       (map snd (filter (\<lambda>cs. fst cs = s_class_id session) (class_students st)))"
  let ?row = "\<lambda>student. \<lparr>a_session_id = sid, a_student_id = student, a_status = ''absent'',
                                 a_checkin_ts = Some now, a_checkout_ts = None,
                                 a_presence_minutes = None, a_selfie_url = None\<rparr>"
  have eq: "post_force_absent u now sid st =
      (if length absent > 0
       then (case insert_rows (map ?row absent) (attendance st) of
               Inl err \<Rightarrow> (Unhandled err, st)
             | Inr tbl \<Rightarrow> (AbsentComputed (length absent), st\<lparr>attendance := tbl\<rparr>))
       else (AbsentComputed (length absent), st))"
    unfolding post_force_absent_def Let_def f absent_def
    by (simp only: prof option.case if_False simp_thms)
  have "length absent = n \<and> attendance st' = attendance st @ map ?row absent"
  proof (cases "length absent > 0")
    case True
    show ?thesis
    proof (cases "insert_rows (map ?row absent) (attendance st)")
      case (Inl err)
      with eq True assms show ?thesis by simp
    next
      case (Inr tbl)
      then have "tbl = attendance st @ map ?row absent" by (rule insert_rows_Inr)
      with eq True Inr assms show ?thesis by auto
    qed
  next
    case False
    with eq assms show ?thesis by auto
  qed
  moreover have "\<forall>student \<in> set absent.
                 (\<exists>s \<in> set (sessions st). s_session_id s = sid \<and> (s_class_id s, student) \<in> set (class_students st))
                 \<and> \<not> (\<exists>a \<in> set (attendance st). a_session_id a = sid \<and> a_student_id a = student
                                                   \<and> a_status a \<in> {''present'', ''late''})"
    unfolding absent_def using sess by force
  ultimately show ?thesis by blast
qed

theorem force_absent_rows_witness:
  "post_force_absent prof1 8 1 st_open =
     (AbsentComputed 1,
      st_open\<lparr>attendance := [\<lparr>a_session_id = 1, a_student_id = ''s1'', a_status = ''absent'',
                                a_checkin_ts = Some 8, a_checkout_ts = None,
                                a_presence_minutes = None, a_selfie_url = None\<rparr>]\<rparr>)
   \<and> (\<exists>absent. length absent = 1 \<and> attendance (st_open\<lparr>attendance := [\<lparr>a_session_id = 1, a_student_id = ''s1'', a_status = ''absent'',
                                a_checkin_ts = Some 8, a_checkout_ts = None,
                                a_presence_minutes = None, a_selfie_url = None\<rparr>]\<rparr>) = attendance st_open @
                map (\<lambda>student. \<lparr>a_session_id = 1, a_student_id = student, a_status = ''absent'',
                                 a_checkin_ts = Some 8, a_checkout_ts = None,
                                 a_presence_minutes = None, a_selfie_url = None\<rparr>) absent)"
proof -
  have h: "post_force_absent prof1 8 1 st_open =
     (AbsentComputed 1,
      st_open\<lparr>attendance := [\<lparr>a_session_id = 1, a_student_id = ''s1'', a_status = ''absent'',
                                a_checkin_ts = Some 8, a_checkout_ts = None,
                                a_presence_minutes = None, a_selfie_url = None\<rparr>]\<rparr>)"
    by (simp add: post_force_absent_def st_open_def st_fresh_def session1_def prof1_def
        is_open_def has_row_def att_key_def)
  from force_absent_rows [OF h] h show ?thesis by blast
qed

text \<open>
  Claim C7 as stated fails: the row created for an absent student has the time of the
  request as its check-in time, not null.
\<close>

theorem force_absent_rows_counterexample:
  "attendance (snd (post_force_absent prof1 8 1 st_open)) =
     [\<lparr>a_session_id = 1, a_student_id = ''s1'', a_status = ''absent'', a_checkin_ts = Some 8,
       a_checkout_ts = None, a_presence_minutes = None, a_selfie_url = None\<rparr>]
   \<and> map a_checkin_ts (attendance (snd (post_force_absent prof1 8 1 st_open))) \<noteq> [None]"
  by (simp add: post_force_absent_def st_open_def st_fresh_def session1_def prof1_def
        is_open_def has_row_def att_key_def)

text \<open>
  A run that inserted at least one absent row makes every later run for the same session
  fail: the absent students are selected again and the insert meets their rows.
\<close>

lemma force_absent_rerun:
  assumes "post_force_absent u now sid st = (AbsentComputed n, st1)" and "0 < n"
  shows "post_force_absent u now' sid st1 = (Unhandled ER_DUP_ENTRY, st1)"
proof -
  let ?P = "\<lambda>st s. s_session_id s = sid \<and>
                (\<exists>c \<in> set (classes st). c_class_id c = s_class_id s \<and> c_professor_id c = u_id u)"
  from assms(1) obtain session where f: "find (?P st) (sessions st) = Some session"
    by (auto simp: post_force_absent_def split: if_splits option.splits)
  from assms(1) have prof: "u_type u = ''professor''"
    by (auto simp: post_force_absent_def split: if_splits)
  let ?absent = "\<lambda>st. 
     filter (\<lambda>s. s \<notin> set (map a_student_id
                  (filter (\<lambda>a. a_session_id a = sid \<and> a_status a \<in> {''present'', ''late''}) (attendance st))))
       (map snd (filter (\<lambda>cs. fst cs = s_class_id session) (class_students st)))"
  define absent where "absent = ?absent st"
  let ?row = "\<lambda>now student. \<lparr>a_session_id = sid, a_student_id = student, a_status = ''absent'',
                                 a_checkin_ts = Some now, a_checkout_ts = None,
                                 a_presence_minutes = None, a_selfie_url = None\<rparr>"
  have eq: "post_force_absent u now sid st =
      (if length absent > 0
       then (case insert_rows (map (?row now) absent) (attendance st) of
               Inl err \<Rightarrow> (Unhandled err, st)
             | Inr tbl \<Rightarrow> (AbsentComputed (length absent), st\<lparr>attendance := tbl\<rparr>))
       else (AbsentComputed (length absent), st))"
    unfolding post_force_absent_def Let_def f absent_def
    by (simp only: prof option.case if_False simp_thms)
  have n: "length absent = n"
    using eq assms(1) by (auto split: if_splits sum.splits)
  with assms(2) have pos: "length absent > 0" by simp
  from eq pos assms(1) obtain tbl where
    ins: "insert_rows (map (?row now) absent) (attendance st) = Inr tbl"
    and st1: "st1 = st\<lparr>attendance := tbl\<rparr>"
    by (auto split: sum.splits)
  from ins have tbl: "tbl = attendance st @ map (?row now) absent" by (rule insert_rows_Inr)
  have f1: "find (?P st1) (sessions st1) = Some session"
    using f by (simp add: st1)
  have none: "filter (\<lambda>a. a_session_id a = sid \<and> a_status a \<in> {''present'', ''late''})
                (map (?row now) absent) = []"
    by (simp add: filter_empty_conv)
  have same: "?absent st1 = absent"
    by (simp add: st1 tbl none absent_def)
  have eq1: "post_force_absent u now' sid st1 =
      (if length absent > 0
       then (case insert_rows (map (?row now') absent) (attendance st1) of
               Inl err \<Rightarrow> (Unhandled err, st1)
             | Inr tbl \<Rightarrow> (AbsentComputed (length absent), st1\<lparr>attendance := tbl\<rparr>))
       else (AbsentComputed (length absent), st1))"
    unfolding post_force_absent_def Let_def f1
    by (simp only: prof option.case if_False simp_thms same)
  from pos obtain x xs where xs: "absent = x # xs" by (cases absent) auto
  have "has_row (attendance st1) (att_key (?row now' x))"
    by (auto simp: st1 tbl xs has_row_def att_key_def)
  then have "insert_rows (map (?row now') absent) (attendance st1) = Inl ER_DUP_ENTRY"
    by (simp add: xs)
  with eq1 pos show ?thesis by simp
qed

text \<open>
  Claim C2 at a concrete store: one class, one enrolled student, one session, no attendance.
  The first force-absent request inserts the absent row. The second one computes the same
  absent student again, since only present and late rows are excluded, and its plain insert
  raises the duplicate-entry error; the table stays as the first run left it.
\<close>

theorem force_absent_twice_duplicate_entry:
  "fst (post_force_absent prof1 8 1 st_open) = AbsentComputed 1
   \<and> fst (post_force_absent prof1 9 1 (snd (post_force_absent prof1 8 1 st_open))) = Unhandled ER_DUP_ENTRY
   \<and> attendance (snd (post_force_absent prof1 9 1 (snd (post_force_absent prof1 8 1 st_open)))) =
       attendance (snd (post_force_absent prof1 8 1 st_open))"
  by (simp add: post_force_absent_def st_open_def st_fresh_def session1_def prof1_def
        is_open_def has_row_def att_key_def)

section \<open>Presence ingestion: one row per pair\<close>

lemma keys_update_checkout: "map att_key (update_checkout sid p now tbl) = map att_key tbl"
  by (induction tbl) (auto simp: update_checkout_def att_key_def)

lemma has_row_keys: "has_row tbl k = (k \<in> set (map att_key tbl))"
  by (auto simp: has_row_def)

lemma keys_upsert:
  "map att_key (upsert_attendance sid p status now url tbl) =
     (if has_row tbl (sid, p) then map att_key tbl else map att_key tbl @ [(sid, p)])"
proof -
  have "map att_key (map (\<lambda>r. if att_key r = (sid, p)
                     then r\<lparr>a_status := status, a_checkin_ts := Some now, a_selfie_url := url\<rparr>
                     else r) tbl) = map att_key tbl"
    by (induction tbl) (auto simp: att_key_def)
  then show ?thesis by (simp add: upsert_attendance_def att_key_def)
qed

lemma unique_upsert:
  "unique_attendance tbl \<Longrightarrow> unique_attendance (upsert_attendance sid p status now url tbl)"
  by (simp add: unique_attendance_def keys_upsert has_row_keys)

lemma unique_update_checkout:
  "unique_attendance tbl \<Longrightarrow> unique_attendance (update_checkout sid p now tbl)"
  by (simp add: unique_attendance_def keys_update_checkout)

lemma attendance_broadcast: "attendance (broadcastPresenceEvent i m st) = attendance st"
  by (simp add: broadcastPresenceEvent_def)

lemma post_presence_cases:
  "attendance (snd (post_presence e now body st)) = attendance st
   \<or> (\<exists>sid p status url. attendance (snd (post_presence e now body st)) =
          upsert_attendance sid p status now url (attendance st))
   \<or> (\<exists>sid p. attendance (snd (post_presence e now body st)) = update_checkout sid p now (attendance st))"
  by (auto simp: post_presence_def Let_def attendance_broadcast split: option.splits)

lemma post_presence_unique:
  "unique_attendance (attendance st) \<Longrightarrow> unique_attendance (attendance (snd (post_presence e now body st)))"
  using post_presence_cases [of e now body st] by (auto simp: unique_upsert unique_update_checkout)

lemma post_presence_has_row:
  "has_row (attendance st) k \<Longrightarrow> has_row (attendance (snd (post_presence e now body st))) k"
  using post_presence_cases [of e now body st]
  by (auto simp: has_row_keys keys_upsert keys_update_checkout simp del: set_map)

lemma post_presence_never_unhandled: "fst (post_presence e now body st) \<noteq> Unhandled err"
  by (auto simp: post_presence_def Let_def split: option.splits)

lemma find_open_session:
  "(\<exists>s \<in> set (sessions st). s_session_id s = sid \<and> is_open s) \<Longrightarrow>
   \<exists>session. find (\<lambda>s. s_session_id s = sid \<and> is_open s) (sessions st) = Some session"
  by (cases "find (\<lambda>s. s_session_id s = sid \<and> is_open s) (sessions st)") (auto simp: find_None_iff)

lemma enters_has_row:
  assumes "enters st body k"
  shows "has_row (attendance (snd (post_presence e now body st))) k"
proof -
  obtain sid p where k: "k = (sid, p)" by (cases k)
  from assms k obtain session where
    f: "find (\<lambda>s. s_session_id s = sid \<and> is_open s) (sessions st) = Some session"
    using find_open_session [of st sid] by (auto simp: enters_def)
  from assms k f have "attendance (snd (post_presence e now body st)) =
      upsert_attendance sid p (resolve_status e now (s_start_ts session)) now
         (details_image_url (b_details body)) (attendance st)"
    by (simp add: post_presence_def enters_def or_default_def Let_def attendance_broadcast)
  then show ?thesis by (simp add: k has_row_keys keys_upsert)
qed

lemma post_presence_all_unique:
  "unique_attendance (attendance st) \<Longrightarrow> unique_attendance (attendance (post_presence_all e reqs st))"
  by (induction e reqs st rule: post_presence_all.induct) (simp_all add: post_presence_unique)

lemma post_presence_all_has_row:
  "has_row (attendance st) k \<Longrightarrow> has_row (attendance (post_presence_all e reqs st)) k"
  by (induction e reqs st rule: post_presence_all.induct) (simp_all add: post_presence_has_row)

lemma enters_sessions: "sessions st' = sessions st \<Longrightarrow> enters st' body k = enters st body k"
  by (simp add: enters_def)

lemma post_presence_all_enters:
  "\<exists>(now, body) \<in> set reqs. enters st body k \<Longrightarrow> has_row (attendance (post_presence_all e reqs st)) k"
proof (induction e reqs st rule: post_presence_all.induct)
  case (1 e st)
  then show ?case by simp
next
  case (2 e now body rest st)
  show ?case
  proof (cases "enters st body k")
    case True
    then have "has_row (attendance (snd (post_presence e now body st))) k" by (rule enters_has_row)
    then show ?thesis by (simp add: post_presence_all_has_row)
  next
    case False
    with "2.prems" have "\<exists>(now, body) \<in> set rest. enters st body k" by auto
    then have "\<exists>(now', body') \<in> set rest. enters (snd (post_presence e now body st)) body' k"
      by (simp add: enters_sessions [OF post_presence_sessions])
    then show ?thesis using "2.IH" by simp
  qed
qed

lemma unique_rows_le: "distinct (map f xs) \<Longrightarrow> length (filter (\<lambda>x. f x = k) xs) \<le> 1"
proof (induction xs)
  case Nil
  then show ?case by simp
next
  case (Cons x xs)
  show ?case
  proof (cases "f x = k")
    case True
    with Cons.prems have "k \<notin> f ` set xs" by auto
    then have "filter (\<lambda>x. f x = k) xs = []" by (auto simp: filter_empty_conv)
    with True show ?thesis by simp
  next
    case False
    with Cons show ?thesis by simp
  qed
qed

lemma rows_for_le: "unique_attendance tbl \<Longrightarrow> length (rows_for tbl k) \<le> 1"
  using unique_rows_le [of att_key tbl k] by (simp add: unique_attendance_def rows_for_def)

lemma rows_for_has_row: "has_row tbl k \<Longrightarrow> rows_for tbl k \<noteq> []"
  by (auto simp: has_row_def rows_for_def filter_empty_conv)

lemma rows_for_one: "unique_attendance tbl \<Longrightarrow> has_row tbl k \<Longrightarrow> length (rows_for tbl k) = 1"
  using rows_for_le [of tbl k] rows_for_has_row [of tbl k]
  by (cases "rows_for tbl k") auto

lemmas eval_presence =
  post_presence_def or_default_def Let_def upsert_attendance_def update_checkout_def has_row_def
  att_key_def st_open_def st_fresh_def session1_def env0_def enter_a_def enter_b_def exit_s1_def
  resolve_status_def isStudentLate_iff threshold_default getTime_def details_image_url_def
  broadcastPresenceEvent_def is_open_def

lemma find_session1: "find (\<lambda>s. s_session_id s = 1 \<and> is_open s) (sessions st_open) = Some session1"
  by (simp add: st_open_def st_fresh_def session1_def is_open_def)

text \<open>
  Claim C4, as the code has it. Requests to the presence route are served one after the
  other. From a table with at most one row per (session, student), every sequence of
  requests leaves at most one row for every pair, and exactly one row for a pair once the
  sequence holds an accepted entry of that pair. No request is answered with a database
  error, so no duplicate-key error reaches a caller.
\<close>

theorem one_record_per_pair:
  "(unique_attendance (attendance st) \<longrightarrow>
      length (rows_for (attendance (post_presence_all e reqs st)) k) \<le> 1
      \<and> ((\<exists>(now, body) \<in> set reqs. enters st body k) \<longrightarrow>
            length (rows_for (attendance (post_presence_all e reqs st)) k) = 1))
   \<and> fst (post_presence e now' body' st) \<noteq> Unhandled err"
  using post_presence_all_unique [of st e reqs] post_presence_all_enters [of reqs st k e]
    rows_for_le [of "attendance (post_presence_all e reqs st)" k]
    rows_for_one [of "attendance (post_presence_all e reqs st)" k]
    post_presence_never_unhandled [of e now' body' st err]
  by blast

theorem one_record_per_pair_witness:
  "unique_attendance (attendance st_open)
   \<and> (\<exists>(now, body) \<in> set [(600000, exit_s1), (700000, enter_a), (800000, enter_a), (900000, exit_s1)].
         enters st_open body (1, ''s1''))
   \<and> length (rows_for (attendance (post_presence_all env0
         [(600000, exit_s1), (700000, enter_a), (800000, enter_a), (900000, exit_s1)] st_open)) (1, ''s1'')) = 1"
proof -
  have u: "unique_attendance (attendance st_open)"
    by (simp add: unique_attendance_def st_open_def st_fresh_def)
  have en: "\<exists>(now, body) \<in> set [(600000, exit_s1), (700000, enter_a), (800000, enter_a), (900000, exit_s1)].
         enters st_open body (1, ''s1'')"
    by (simp add: enters_def enter_a_def st_open_def st_fresh_def session1_def is_open_def)
  have one: "length (rows_for (attendance (post_presence_all env0
         [(600000, exit_s1), (700000, enter_a), (800000, enter_a), (900000, exit_s1)] st_open)) (1, ''s1'')) = 1"
    by (rule one_record_per_pair [of st_open env0
          "[(600000, exit_s1), (700000, enter_a), (800000, enter_a), (900000, exit_s1)]" "(1, ''s1'')"
          0 exit_s1 ER_DUP_ENTRY,
          THEN conjunct1, THEN mp, OF u, THEN conjunct2, THEN mp, OF en])
  from u en one show ?thesis by (intro conjI)
qed

text \<open>
  Claim C4 as stated fails: after a sequence that holds only an exit, the pair has no row
  at all, while the event is in the log.
\<close>

theorem exit_only_counterexample:
  "rows_for (attendance (post_presence_all env0 [(600000, exit_s1)] st_open)) (1, ''s1'') = []
   \<and> length (rows_for (attendance (post_presence_all env0 [(600000, exit_s1)] st_open)) (1, ''s1'')) \<noteq> 1
   \<and> length (presence_events (post_presence_all env0 [(600000, exit_s1)] st_open)) = 1"
  by (simp add: eval_presence rows_for_def)

section \<open>An exit without an entry\<close>

lemma no_enter_keeps_no_row:
  assumes "\<not> has_row (attendance st) k" and "\<not> is_enter_for body k"
  shows "\<not> has_row (attendance (snd (post_presence e now body st))) k"
proof -
  obtain sid p where k: "k = (sid, p)" by (cases k)
  show ?thesis using assms unfolding k
    by (auto simp: post_presence_def Let_def attendance_broadcast has_row_keys keys_upsert
          keys_update_checkout is_enter_for_def or_default_def
          simp del: set_map split: option.splits if_splits)
qed

lemma no_enters_keep_no_row:
  "\<not> has_row (attendance st) k \<Longrightarrow> \<forall>(now, body) \<in> set reqs. \<not> is_enter_for body k \<Longrightarrow>
   \<not> has_row (attendance (post_presence_all e reqs st)) k"
proof (induction e reqs st rule: post_presence_all.induct)
  case (1 e st)
  then show ?case by simp
next
  case (2 e now body rest st)
  from "2.prems" have "\<not> has_row (attendance (snd (post_presence e now body st))) k"
    using no_enter_keeps_no_row [of st k body e now] by auto
  moreover from "2.prems" have "\<forall>(now, body) \<in> set rest. \<not> is_enter_for body k" by simp
  ultimately show ?case using "2.IH" by simp
qed

lemma update_checkout_no_row: "\<not> has_row tbl (sid, p) \<Longrightarrow> update_checkout sid p now tbl = tbl"
  by (induction tbl) (auto simp: update_checkout_def has_row_def)

text \<open>
  Claim C9, as the code has it. An accepted exit is appended to the event log and creates no
  attendance row: the keys of the table are as before, and only the check-out time of the
  pair's row, if there is one, is set. When the pair has no row the table is exactly as
  before; this is so after every history of presence requests without an entry of the pair,
  from a table with no row for it.
\<close>

theorem exit_creates_no_record:
  assumes "b_session_id body = Some sid" and "sid \<noteq> 0"
    and "b_student_id body = Some p" and "p \<noteq> []"
    and "b_event_type body = Some ''out''"
    and "\<exists>s \<in> set (sessions st). s_session_id s = sid \<and> is_open s"
  shows "fst (post_presence e now body st) = EventRecorded (next_event_id st)
         \<and> presence_events (snd (post_presence e now body st)) =
             presence_events st @
               [\<lparr>e_event_id = next_event_id st, e_session_id = sid, e_student_id = p,
                 e_event_type = ''out'', e_event_ts = now,
                 e_source = or_default (b_source body) ''cctv'', e_details = b_details body\<rparr>]
         \<and> map att_key (attendance (snd (post_presence e now body st))) = map att_key (attendance st)
         \<and> attendance (snd (post_presence e now body st)) =
             map (\<lambda>r. if a_session_id r = sid \<and> a_student_id r = p
                       then r\<lparr>a_checkout_ts := Some now\<rparr> else r) (attendance st)
         \<and> (\<not> has_row (attendance st) (sid, p) \<longrightarrow>
               attendance (snd (post_presence e now body st)) = attendance st)
         \<and> (\<not> has_row (attendance st0) (sid, p) \<and> (\<forall>(t, b) \<in> set reqs. \<not> is_enter_for b (sid, p))
               \<and> st = post_presence_all e reqs st0 \<longrightarrow>
               attendance (snd (post_presence e now body st)) = attendance st)"
proof -
  from assms(6) obtain session where
    f: "find (\<lambda>s. s_session_id s = sid \<and> is_open s) (sessions st) = Some session"
    using find_open_session by blast
  have att: "attendance (snd (post_presence e now body st)) = update_checkout sid p now (attendance st)"
    using assms(1-5) f by (simp add: post_presence_def or_default_def Let_def attendance_broadcast)
  have ev: "fst (post_presence e now body st) = EventRecorded (next_event_id st)
         \<and> presence_events (snd (post_presence e now body st)) =
             presence_events st @
               [\<lparr>e_event_id = next_event_id st, e_session_id = sid, e_student_id = p,
                 e_event_type = ''out'', e_event_ts = now,
                 e_source = or_default (b_source body) ''cctv'', e_details = b_details body\<rparr>]"
    using assms(1-5) f
    by (simp add: post_presence_def or_default_def Let_def broadcastPresenceEvent_def)
  have keys: "map att_key (attendance (snd (post_presence e now body st))) = map att_key (attendance st)"
    by (simp only: att keys_update_checkout)
  have rows: "attendance (snd (post_presence e now body st)) =
             map (\<lambda>r. if a_session_id r = sid \<and> a_student_id r = p
                       then r\<lparr>a_checkout_ts := Some now\<rparr> else r) (attendance st)"
    by (simp add: att update_checkout_def att_key_def)
  have same: "attendance (snd (post_presence e now body st)) = attendance st"
    if "\<not> has_row (attendance st) (sid, p)"
    using that by (simp add: att update_checkout_no_row)
  have hist: "attendance (snd (post_presence e now body st)) = attendance st"
    if "\<not> has_row (attendance st0) (sid, p)" and "\<forall>(t, b) \<in> set reqs. \<not> is_enter_for b (sid, p)"
      and "st = post_presence_all e reqs st0"
  proof -
    from that have "\<not> has_row (attendance st) (sid, p)" by (simp add: no_enters_keep_no_row)
    then show ?thesis by (rule same)
  qed
  from ev keys rows same hist show ?thesis by blast
qed

theorem exit_creates_no_record_witness:
  "b_session_id exit_s1 = Some 1 \<and> b_student_id exit_s1 = Some ''s1''
   \<and> b_event_type exit_s1 = Some ''out''
   \<and> (\<exists>s \<in> set (sessions (post_presence_all env0 [(500000, exit_s1)] st_open)). s_session_id s = 1 \<and> is_open s)
   \<and> \<not> has_row (attendance st_open) (1, ''s1'')
   \<and> \<not> is_enter_for exit_s1 (1, ''s1'')
   \<and> \<not> has_row (attendance (post_presence_all env0 [(500000, exit_s1)] st_open)) (1, ''s1'')
   \<and> attendance (snd (post_presence env0 600000 exit_s1 (post_presence_all env0 [(500000, exit_s1)] st_open))) = []
   \<and> length (presence_events (snd (post_presence env0 600000 exit_s1
               (post_presence_all env0 [(500000, exit_s1)] st_open)))) = 2"
proof -
  let ?st = "post_presence_all env0 [(500000, exit_s1)] st_open"
  have h0: "\<not> has_row (attendance st_open) (1, ''s1'')"
    by (simp add: has_row_def st_open_def st_fresh_def)
  have h2: "\<forall>(t, b) \<in> set [(500000, exit_s1)]. \<not> is_enter_for b (1, ''s1'')"
    by (simp add: is_enter_for_def exit_s1_def)
  then have h2': "\<not> is_enter_for exit_s1 (1, ''s1'')" by simp
  have h1: "b_session_id exit_s1 = Some 1" and h3: "b_student_id exit_s1 = Some ''s1''"
    and h5: "b_event_type exit_s1 = Some ''out''"
    by (simp_all add: exit_s1_def)
  have h6: "\<exists>s \<in> set (sessions ?st). s_session_id s = 1 \<and> is_open s"
    by (simp add: post_presence_sessions) (simp add: st_open_def st_fresh_def session1_def is_open_def)
  have a0: "attendance ?st = []"
    and e0: "length (presence_events ?st) = 1"
    by (simp_all add: eval_presence)
  then have h7: "\<not> has_row (attendance ?st) (1, ''s1'')" by (simp add: has_row_def)
  have n0: "(1::nat) \<noteq> 0" and p0: "''s1'' \<noteq> []" by simp_all
  note th = exit_creates_no_record [OF h1 n0 h3 p0 h5 h6, where e = env0 and now = 600000
              and ?st0.0 = st_open and reqs = "[(500000, exit_s1)]"]
  have c: "attendance (snd (post_presence env0 600000 exit_s1 ?st)) = attendance ?st"
    by (rule th [THEN conjunct2, THEN conjunct2, THEN conjunct2, THEN conjunct2, THEN conjunct2,
                 THEN mp, OF conjI [OF h0 conjI [OF h2 refl]]])
  have c2: "attendance (snd (post_presence env0 600000 exit_s1 ?st)) = attendance ?st"
    by (rule th [THEN conjunct2, THEN conjunct2, THEN conjunct2, THEN conjunct2, THEN conjunct1,
                 THEN mp, OF h7])
  have d: "presence_events (snd (post_presence env0 600000 exit_s1 ?st)) =
             presence_events ?st @
               [\<lparr>e_event_id = next_event_id ?st, e_session_id = 1, e_student_id = ''s1'',
                 e_event_type = ''out'', e_event_ts = 600000,
                 e_source = or_default (b_source exit_s1) ''cctv'', e_details = b_details exit_s1\<rparr>]"
    by (rule th [THEN conjunct2, THEN conjunct1])
  from c a0 have c': "attendance (snd (post_presence env0 600000 exit_s1 ?st)) = []" by simp
  from d e0 have d': "length (presence_events (snd (post_presence env0 600000 exit_s1 ?st))) = 2" by simp
  from h1 h3 h5 h6 h0 h2' h7 c' d' show ?thesis by (intro conjI)
qed

text \<open>
  Claim C9 as stated fails: the force-absent request on the open session gives the student an
  absent row with no entry in the event log; the exit of the student then sets the check-out
  time of that row, so the attendance table is not as before.
\<close>

theorem exit_after_force_absent_counterexample:
  "presence_events (snd (post_force_absent prof1 8 1 st_open)) = []
   \<and> attendance (snd (post_force_absent prof1 8 1 st_open)) =
       [\<lparr>a_session_id = 1, a_student_id = ''s1'', a_status = ''absent'', a_checkin_ts = Some 8,
         a_checkout_ts = None, a_presence_minutes = None, a_selfie_url = None\<rparr>]
   \<and> attendance (snd (post_presence env0 600000 exit_s1 (snd (post_force_absent prof1 8 1 st_open)))) =
       [\<lparr>a_session_id = 1, a_student_id = ''s1'', a_status = ''absent'', a_checkin_ts = Some 8,
         a_checkout_ts = Some 600000, a_presence_minutes = None, a_selfie_url = None\<rparr>]
   \<and> attendance (snd (post_presence env0 600000 exit_s1 (snd (post_force_absent prof1 8 1 st_open))))
        \<noteq> attendance (snd (post_force_absent prof1 8 1 st_open))"
  by (simp add: eval_presence post_force_absent_def prof1_def)

section \<open>An entry for a pair that has a row\<close>

lemma upsert_existing:
  "has_row tbl (sid, p) \<Longrightarrow>
   upsert_attendance sid p status now url tbl =
     map (\<lambda>r. if a_session_id r = sid \<and> a_student_id r = p
               then r\<lparr>a_status := status, a_checkin_ts := Some now, a_selfie_url := url\<rparr> else r) tbl"
  by (simp add: upsert_attendance_def att_key_def)

text \<open>
  Claim C1, as the code has it. An accepted entry for a pair that has a row keeps the rows
  and their order, and overwrites three columns of the pair's row with the values of the new
  event: the status resolved at the new event time, the new check-in time, and the new
  selfie locator (null when the event has none). The other columns and the other rows are
  unchanged. This is so on the presence route and on the face check-in route.
\<close>

theorem enter_overwrites_existing_record:
  assumes "has_row (attendance st) (sid, p)"
    and "find (\<lambda>s. s_session_id s = sid \<and> is_open s) (sessions st) = Some session"
  shows "(b_session_id body = Some sid \<and> sid \<noteq> 0 \<and> b_student_id body = Some p \<and> p \<noteq> [] \<and>
          b_event_type body = Some ''in'' \<longrightarrow>
            attendance (snd (post_presence e now body st)) =
              map (\<lambda>r. if a_session_id r = sid \<and> a_student_id r = p
                        then r\<lparr>a_status := (if isStudentLate e now (s_start_ts session) then ''late'' else ''present''),
                               a_checkin_ts := Some now,
                               a_selfie_url := details_image_url (b_details body)\<rparr>
                        else r) (attendance st))
         \<and> (k_session_id cb = sid \<and> u_id u = p \<and> m_matched d \<and> m_student_id d = Some p \<longrightarrow>
            attendance (snd (post_checkin e now u cb True (MLResponse d) st)) =
              map (\<lambda>r. if a_session_id r = sid \<and> a_student_id r = p
                        then r\<lparr>a_status := (if isStudentLate e now (s_start_ts session) then ''late'' else ''present''),
                               a_checkin_ts := Some now,
                               a_selfie_url := Some (imageUrl e (imageKey sid p now))\<rparr>
                        else r) (attendance st))"
  using assms
  by (simp add: post_presence_def post_checkin_def or_default_def Let_def attendance_broadcast
        upsert_existing resolve_status_def)

theorem enter_overwrites_existing_record_witness:
  "has_row (attendance st_present) (1, ''s1'')
   \<and> find (\<lambda>s. s_session_id s = 1 \<and> is_open s) (sessions st_present) = Some session1
   \<and> b_session_id enter_b = Some 1 \<and> b_student_id enter_b = Some ''s1'' \<and> b_event_type enter_b = Some ''in''
   \<and> attendance (snd (post_presence env0 2700000 enter_b st_present)) =
        [row_a\<lparr>a_status := ''late'', a_checkin_ts := Some 2700000, a_selfie_url := Some ''b.jpg''\<rparr>]
   \<and> k_session_id checkin1 = 1 \<and> u_id student1 = ''s1'' \<and> m_matched match_s1
   \<and> m_student_id match_s1 = Some ''s1''
   \<and> attendance (snd (post_checkin env0 2700000 student1 checkin1 True (MLResponse match_s1) st_present)) =
        [row_a\<lparr>a_status := ''late'', a_checkin_ts := Some 2700000,
               a_selfie_url := Some (imageUrl env0 (imageKey 1 ''s1'' 2700000))\<rparr>]"
proof -
  have h1: "has_row (attendance st_present) (1, ''s1'')"
    by (simp add: st_present_def has_row_def row_a_def att_key_def)
  have h2: "find (\<lambda>s. s_session_id s = 1 \<and> is_open s) (sessions st_present) = Some session1"
    using find_session1 by (simp add: st_present_def)
  have late: "isStudentLate env0 2700000 (s_start_ts session1)"
    by (simp add: isStudentLate_iff env0_def threshold_default getTime_def session1_def)
  from enter_overwrites_existing_record [OF h1 h2,
         where body = enter_b and e = env0 and now = 2700000 and cb = checkin1 and u = student1 and d = match_s1]
       h1 h2 late
  show ?thesis
    by (simp add: enter_b_def checkin1_def student1_def match_s1_def st_present_def row_a_def
          details_image_url_def)
qed

text \<open>
  Claim C1 as stated fails: an entry at 00:10 with confidence 90 gives a present row; a second
  entry at 00:45 with confidence 10 turns the row to late, with the later check-in time and
  the second image.
\<close>

theorem enter_merge_counterexample:
  "attendance (post_presence_all env0 [(600000, enter_a)] st_open) =
     [\<lparr>a_session_id = 1, a_student_id = ''s1'', a_status = ''present'', a_checkin_ts = Some 600000,
       a_checkout_ts = None, a_presence_minutes = None, a_selfie_url = Some ''a.jpg''\<rparr>]
   \<and> attendance (post_presence_all env0 [(600000, enter_a), (2700000, enter_b)] st_open) =
     [\<lparr>a_session_id = 1, a_student_id = ''s1'', a_status = ''late'', a_checkin_ts = Some 2700000,
       a_checkout_ts = None, a_presence_minutes = None, a_selfie_url = Some ''b.jpg''\<rparr>]
   \<and> map a_checkin_ts (attendance (post_presence_all env0 [(600000, enter_a), (2700000, enter_b)] st_open))
        \<noteq> [Some (min 600000 2700000)]
   \<and> b_details enter_a = Some \<lparr>image_url = Some ''a.jpg'', score = None, confidence = Some 90\<rparr>
   \<and> b_details enter_b = Some \<lparr>image_url = Some ''b.jpg'', score = None, confidence = Some 10\<rparr>"
  by (simp add: eval_presence)

section \<open>An exit for a pair that has a row\<close>

text \<open>
  Claim C6, as the code has it. An accepted exit sets the check-out time of the pair's row to
  the clock reading of the request, whatever was stored, and changes nothing else: the
  presence minutes and the check-in times of all rows are as before.
\<close>

theorem exit_sets_checkout_only:
  assumes "b_session_id body = Some sid" and "sid \<noteq> 0"
    and "b_student_id body = Some p" and "p \<noteq> []"
    and "b_event_type body = Some ''out''"
    and "\<exists>s \<in> set (sessions st). s_session_id s = sid \<and> is_open s"
  shows "attendance (snd (post_presence e now body st)) =
           map (\<lambda>r. if a_session_id r = sid \<and> a_student_id r = p
                     then r\<lparr>a_checkout_ts := Some now\<rparr> else r) (attendance st)
         \<and> map a_presence_minutes (attendance (snd (post_presence e now body st))) =
             map a_presence_minutes (attendance st)
         \<and> map a_checkin_ts (attendance (snd (post_presence e now body st))) =
             map a_checkin_ts (attendance st)"
proof -
  from assms(6) obtain session where
    f: "find (\<lambda>s. s_session_id s = sid \<and> is_open s) (sessions st) = Some session"
    using find_open_session by blast
  have att: "attendance (snd (post_presence e now body st)) =
           map (\<lambda>r. if a_session_id r = sid \<and> a_student_id r = p
                     then r\<lparr>a_checkout_ts := Some now\<rparr> else r) (attendance st)"
    using assms(1-5) f
    by (simp add: post_presence_def or_default_def Let_def attendance_broadcast update_checkout_def att_key_def)
  have "map a_presence_minutes (map (\<lambda>r. if a_session_id r = sid \<and> a_student_id r = p
                     then r\<lparr>a_checkout_ts := Some now\<rparr> else r) tbl) = map a_presence_minutes tbl"
     and "map a_checkin_ts (map (\<lambda>r. if a_session_id r = sid \<and> a_student_id r = p
                     then r\<lparr>a_checkout_ts := Some now\<rparr> else r) tbl) = map a_checkin_ts tbl"
    for tbl by (induction tbl) auto
  with att show ?thesis by simp
qed

theorem exit_sets_checkout_only_witness:
  "b_session_id exit_s1 = Some 1 \<and> b_student_id exit_s1 = Some ''s1'' \<and> b_event_type exit_s1 = Some ''out''
   \<and> (\<exists>s \<in> set (sessions st_present). s_session_id s = 1 \<and> is_open s)
   \<and> attendance (snd (post_presence env0 900000 exit_s1 st_present)) = [row_a\<lparr>a_checkout_ts := Some 900000\<rparr>]"
proof -
  have h1: "b_session_id exit_s1 = Some 1" and h3: "b_student_id exit_s1 = Some ''s1''"
    and h5: "b_event_type exit_s1 = Some ''out''"
    by (simp_all add: exit_s1_def)
  have h6: "\<exists>s \<in> set (sessions st_present). s_session_id s = 1 \<and> is_open s"
    by (simp add: st_present_def st_open_def st_fresh_def session1_def is_open_def)
  from exit_sets_checkout_only [OF h1 _ h3 _ h5 h6, of env0 900000] h1 h3 h5 h6
  show ?thesis by (simp add: st_present_def row_a_def)
qed

text \<open>
  Claim C6 as stated fails: after an entry at 0 and an exit ten minutes later the presence
  minutes are still null; and an exit with an earlier clock reading replaces a later stored
  check-out time.
\<close>

theorem exit_update_counterexample:
  "attendance (post_presence_all env0 [(0, enter_a), (600000, exit_s1)] st_open) =
     [\<lparr>a_session_id = 1, a_student_id = ''s1'', a_status = ''present'', a_checkin_ts = Some 0,
       a_checkout_ts = Some 600000, a_presence_minutes = None, a_selfie_url = Some ''a.jpg''\<rparr>]
   \<and> map a_presence_minutes (attendance (post_presence_all env0 [(0, enter_a), (600000, exit_s1)] st_open))
        \<noteq> [Some ((600000 - 0) div 60000)]
   \<and> attendance (post_presence_all env0 [(0, enter_a), (900000, exit_s1), (600000, exit_s1)] st_open) =
     [\<lparr>a_session_id = 1, a_student_id = ''s1'', a_status = ''present'', a_checkin_ts = Some 0,
       a_checkout_ts = Some 600000, a_presence_minutes = None, a_selfie_url = Some ''a.jpg''\<rparr>]"
  by (simp add: eval_presence)

section \<open>Face check-in writes only on a confirmed match\<close>

lemma checkin_unchanged:
  assumes "\<not> (\<exists>d. ml = MLResponse d \<and> m_matched d \<and> m_student_id d = Some (u_id u))"
  shows "is_failure (fst (post_checkin e now u body ok ml st))"
    and "attendance (snd (post_checkin e now u body ok ml st)) = attendance st"
    and "presence_events (snd (post_checkin e now u body ok ml st)) = presence_events st"
  using assms
  by (auto simp: post_checkin_def Let_def split: option.splits ml_result.splits)

lemma checkin_answers:
  assumes "find (\<lambda>s. s_session_id s = k_session_id body \<and> is_open s) (sessions st) = Some session"
  shows "post_checkin e now u body True MLError st =
           (Failure 500 ''Face recognition service unavailable'',
            st\<lparr>objects := objects st @ [(imageKey (k_session_id body) (u_id u) now, k_image_data body)]\<rparr>)"
    and "\<not> (m_matched d \<and> m_student_id d = Some (u_id u)) \<Longrightarrow>
         post_checkin e now u body True (MLResponse d) st =
           (Failure 400 ''Face recognition failed. Please try again or contact support.'',
            st\<lparr>objects := objects st @ [(imageKey (k_session_id body) (u_id u) now, k_image_data body)]\<rparr>)"
  using assms by (auto simp: post_checkin_def Let_def)

lemma checkin_success:
  assumes "find (\<lambda>s. s_session_id s = k_session_id body \<and> is_open s) (sessions st) = Some session"
    and "m_matched d" and "m_student_id d = Some (u_id u)"
  shows "fst (post_checkin e now u body True (MLResponse d) st) =
           CheckedIn (resolve_status e now (s_start_ts session))
             (if isStudentLate e now (s_start_ts session) then ''Checked in late'' else ''Checked in successfully'')"
    and "presence_events (snd (post_checkin e now u body True (MLResponse d) st)) =
           presence_events st @
             [\<lparr>e_event_id = next_event_id st, e_session_id = k_session_id body, e_student_id = u_id u,
               e_event_type = ''in'', e_event_ts = now, e_source = ''face'',
               e_details = Some \<lparr>image_url = Some (imageUrl e (imageKey (k_session_id body) (u_id u) now)),
                                  score = m_score d, confidence = m_confidence d\<rparr>\<rparr>]"
    and "attendance (snd (post_checkin e now u body True (MLResponse d) st)) =
           upsert_attendance (k_session_id body) (u_id u) (resolve_status e now (s_start_ts session)) now
             (Some (imageUrl e (imageKey (k_session_id body) (u_id u) now))) (attendance st)"
  using assms by (simp_all add: post_checkin_def Let_def broadcastPresenceEvent_def)

text \<open>
  Claim C10. Unless the matching service answered with a positive match whose student id is
  the caller's, the check-in answers a failure and leaves the attendance table and the
  event log as they were. With an open session and a stored image, a thrown error of the
  service gives the 500 failure, a negative or foreign match gives the 400 failure, and a
  confirmed match gives a success, a row for the caller and one more event in the log.
\<close>

theorem checkin_writes_only_on_confirmed_match:
  "(\<not> (\<exists>d. ml = MLResponse d \<and> m_matched d \<and> m_student_id d = Some (u_id u)) \<longrightarrow>
      is_failure (fst (post_checkin e now u body ok ml st))
      \<and> attendance (snd (post_checkin e now u body ok ml st)) = attendance st
      \<and> presence_events (snd (post_checkin e now u body ok ml st)) = presence_events st)
   \<and> (find (\<lambda>s. s_session_id s = k_session_id body \<and> is_open s) (sessions st) = Some session \<longrightarrow>
        fst (post_checkin e now u body True MLError st) = Failure 500 ''Face recognition service unavailable''
        \<and> (\<not> (m_matched d \<and> m_student_id d = Some (u_id u)) \<longrightarrow>
             fst (post_checkin e now u body True (MLResponse d) st) =
               Failure 400 ''Face recognition failed. Please try again or contact support.'')
        \<and> (m_matched d \<and> m_student_id d = Some (u_id u) \<longrightarrow>
             \<not> is_failure (fst (post_checkin e now u body True (MLResponse d) st))
             \<and> has_row (attendance (snd (post_checkin e now u body True (MLResponse d) st)))
                  (k_session_id body, u_id u)
             \<and> presence_events (snd (post_checkin e now u body True (MLResponse d) st)) =
                 presence_events st @
                   [\<lparr>e_event_id = next_event_id st, e_session_id = k_session_id body, e_student_id = u_id u,
                     e_event_type = ''in'', e_event_ts = now, e_source = ''face'',
                     e_details = Some \<lparr>image_url = Some (imageUrl e (imageKey (k_session_id body) (u_id u) now)),
                                        score = m_score d, confidence = m_confidence d\<rparr>\<rparr>]))"
proof -
  have a: "\<not> (\<exists>d. ml = MLResponse d \<and> m_matched d \<and> m_student_id d = Some (u_id u)) \<longrightarrow>
      is_failure (fst (post_checkin e now u body ok ml st))
      \<and> attendance (snd (post_checkin e now u body ok ml st)) = attendance st
      \<and> presence_events (snd (post_checkin e now u body ok ml st)) = presence_events st"
    using checkin_unchanged [of ml u e now body ok st] by blast
  have b: "fst (post_checkin e now u body True MLError st) = Failure 500 ''Face recognition service unavailable''
        \<and> (\<not> (m_matched d \<and> m_student_id d = Some (u_id u)) \<longrightarrow>
             fst (post_checkin e now u body True (MLResponse d) st) =
               Failure 400 ''Face recognition failed. Please try again or contact support.'')"
    if "find (\<lambda>s. s_session_id s = k_session_id body \<and> is_open s) (sessions st) = Some session"
    using checkin_answers [OF that] by simp
  have c: "\<not> is_failure (fst (post_checkin e now u body True (MLResponse d) st))
             \<and> has_row (attendance (snd (post_checkin e now u body True (MLResponse d) st)))
                  (k_session_id body, u_id u)
             \<and> presence_events (snd (post_checkin e now u body True (MLResponse d) st)) =
                 presence_events st @
                   [\<lparr>e_event_id = next_event_id st, e_session_id = k_session_id body, e_student_id = u_id u,
                     e_event_type = ''in'', e_event_ts = now, e_source = ''face'',
                     e_details = Some \<lparr>image_url = Some (imageUrl e (imageKey (k_session_id body) (u_id u) now)),
                                        score = m_score d, confidence = m_confidence d\<rparr>\<rparr>]"
    if "find (\<lambda>s. s_session_id s = k_session_id body \<and> is_open s) (sessions st) = Some session"
      and "m_matched d \<and> m_student_id d = Some (u_id u)"
    using that(2) by (simp add: checkin_success [OF that(1)] has_row_keys keys_upsert)
  from a b c show ?thesis by blast
qed

theorem checkin_writes_only_on_confirmed_match_witness:
  "\<not> (\<exists>d. MLError = MLResponse d \<and> m_matched d \<and> m_student_id d = Some (u_id student1))
   \<and> find (\<lambda>s. s_session_id s = k_session_id checkin1 \<and> is_open s) (sessions st_open) = Some session1
   \<and> is_failure (fst (post_checkin env0 600000 student1 checkin1 True MLError st_open))
   \<and> attendance (snd (post_checkin env0 600000 student1 checkin1 True MLError st_open)) = []
   \<and> presence_events (snd (post_checkin env0 600000 student1 checkin1 True MLError st_open)) = []
   \<and> \<not> (m_matched match_s2 \<and> m_student_id match_s2 = Some (u_id student1))
   \<and> fst (post_checkin env0 600000 student1 checkin1 True (MLResponse match_s2) st_open) =
        Failure 400 ''Face recognition failed. Please try again or contact support.''
   \<and> m_matched match_s1 \<and> m_student_id match_s1 = Some (u_id student1)
   \<and> has_row (attendance (snd (post_checkin env0 600000 student1 checkin1 True (MLResponse match_s1) st_open)))
        (1, ''s1'')
   \<and> length (presence_events (snd (post_checkin env0 600000 student1 checkin1 True (MLResponse match_s1) st_open))) = 1"
proof -
  have h0: "\<not> (\<exists>d. MLError = MLResponse d \<and> m_matched d \<and> m_student_id d = Some (u_id student1))"
    by simp
  have h1: "find (\<lambda>s. s_session_id s = k_session_id checkin1 \<and> is_open s) (sessions st_open) = Some session1"
    using find_session1 by (simp add: checkin1_def)
  have h2: "\<not> (m_matched match_s2 \<and> m_student_id match_s2 = Some (u_id student1))"
    by (simp add: match_s2_def student1_def)
  have h3: "m_matched match_s1 \<and> m_student_id match_s1 = Some (u_id student1)"
    by (simp add: match_s1_def student1_def)
  have e0: "attendance st_open = [] \<and> presence_events st_open = []"
    by (simp add: st_open_def st_fresh_def)
  from checkin_writes_only_on_confirmed_match
         [where ml = MLError and u = student1 and e = env0 and now = 600000 and body = checkin1
            and ok = True and st = st_open and session = session1 and d = match_s2]
       checkin_writes_only_on_confirmed_match
         [where ml = MLError and u = student1 and e = env0 and now = 600000 and body = checkin1
            and ok = True and st = st_open and session = session1 and d = match_s1]
       h0 h1 h2 h3 e0
  show ?thesis by (simp add: checkin1_def student1_def)
qed

end
